theory Spec2Isabelle
  imports Complex_Main
begin

section \<open>Beanstalk bots: monitors and message formatting (bots/util.py)\<close>

text \<open>
  A shallow embedding of \<^verbatim>\<open>src/python/bots/util.py\<close>. Conventions:
  \<^item> Python \<^verbatim>\<open>float\<close> values are modelled as \<^typ>\<open>real\<close>: the arithmetic is exact,
    rounding of IEEE doubles is not represented. Which exception an operation raises
    (missing input, division by zero) does not depend on rounding.
  \<^item> Python \<^verbatim>\<open>int\<close> is \<^typ>\<open>int\<close>.
  \<^item> Python \<^verbatim>\<open>str\<close> is \<^typ>\<open>string\<close>, holding the UTF-8 bytes of the text: ASCII text
    is unchanged, and each emoji of the source is a named constant of four bytes.
  \<^item> every \<^verbatim>\<open>raise\<close> is a value \<open>Inl e\<close> of a sum type.
\<close>

subsection \<open>Exceptions\<close>

datatype py_error =
    ValueError
  | ZeroDivisionError
  | AttributeError
  | UnboundLocalError
  | IndexError

subsection \<open>Emoji constants\<close>

definition fish_emoji :: string where
  "fish_emoji = [CHR 0xF0, CHR 0x9F, CHR 0x90, CHR 0x9F]"

definition shark_emoji :: string where
  "shark_emoji = [CHR 0xF0, CHR 0x9F, CHR 0xA6, CHR 0x88]"

definition whale_emoji :: string where
  "whale_emoji = [CHR 0xF0, CHR 0x9F, CHR 0x90, CHR 0xB3]"

text \<open>Python's \<^verbatim>\<open>s * n\<close> on a string: \<open>n\<close> copies of \<open>s\<close>, none when \<open>n \<le> 0\<close>.\<close>

definition str_times :: "string \<Rightarrow> int \<Rightarrow> string" where
  "str_times s n = concat (replicate (nat n) s)"

subsection \<open>Rounding\<close>

text \<open>
  \<^verbatim>\<open>int(value)\<close> on a float truncates towards zero.
\<close>

definition py_int :: "real \<Rightarrow> int" where
  "py_int x = (if 0 \<le> x then \<lfloor>x\<rfloor> else \<lceil>x\<rceil>)"

text \<open>
  \<^verbatim>\<open>round(v, -k)\<close> on a Python int, with \<open>m = 10 ^ k\<close>: the multiple of \<open>m\<close> nearest
  to \<open>v\<close>; of two equally near multiples, the one whose quotient by \<open>m\<close> is even.
\<close>

definition py_round :: "int \<Rightarrow> int \<Rightarrow> int" where
  "py_round v m =
     (let q = v div m; r = v mod m in
      if 2 * r < m then q * m
      else if m < 2 * r then (q + 1) * m
      else if even q then q * m else (q + 1) * m)"

subsection \<open>value_to_emojis\<close>

text \<open>
  \<^verbatim>\<open>
  def value_to_emojis(value):
      value = int(value)
      if value < 0:
          return ''
      value = round(value, -3)
      if value < 10000:
          return FISH * (value // 1000) or FISH
      value = round(value, -4)
      if value < 100000:
          return SHARK * (value // 10000)
      value = round(value, -5)
      return WHALE * (value // 100000)
  \<close>
  \<^verbatim>\<open>x or y\<close> on strings is \<open>y\<close> when \<open>x\<close> is empty.
\<close>

definition str_or :: "string \<Rightarrow> string \<Rightarrow> string" where
  "str_or x y = (if x = [] then y else x)"

definition value_to_emojis :: "real \<Rightarrow> string" where
  "value_to_emojis v0 =
     (let v = py_int v0 in
      if v < 0 then []
      else let v1 = py_round v 1000 in
        if v1 < 10000 then str_or (str_times fish_emoji (v1 div 1000)) fish_emoji
        else let v2 = py_round v1 10000 in
          if v2 < 100000 then str_times shark_emoji (v2 div 10000)
          else let v3 = py_round v2 100000 in
            str_times whale_emoji (v3 div 100000))"

text \<open>
  The last value the variable \<^verbatim>\<open>value\<close> holds when \<^verbatim>\<open>value_to_emojis\<close> returns: the
  rounded amount whose thousands, ten-thousands or hundred-thousands are counted.
\<close>

definition rounded_value :: "real \<Rightarrow> int" where
  "rounded_value v0 =
     (let v = py_int v0 in
      if v < 0 then v
      else let v1 = py_round v 1000 in
        if v1 < 10000 then v1
        else let v2 = py_round v1 10000 in
          if v2 < 100000 then v2
          else py_round v2 100000)"

text \<open>
  Reading a rendered string back: every symbol is four bytes long, and the symbol says
  whether one copy stands for 1,000, for 10,000 or for 100,000 dollars.
\<close>

definition emoji_count :: "string \<Rightarrow> int" where
  "emoji_count s = int (length s) div 4"

definition emoji_magnitude :: "string \<Rightarrow> int" where
  "emoji_magnitude s =
     (if take 4 s = fish_emoji then 1000 * emoji_count s
      else if take 4 s = shark_emoji then 10000 * emoji_count s
      else if take 4 s = whale_emoji then 100000 * emoji_count s
      else 0)"

subsection \<open>Floats\<close>

text \<open>
  A Python \<^verbatim>\<open>float\<close> is an IEEE 754 binary64 number: a finite one is \<open>m * 2^e\<close> with an
  integer \<open>m\<close> of magnitude below \<open>2^53\<close> and an exponent \<open>e\<close> from \<open>-1074\<close> to \<open>971\<close>.
  The operators \<^verbatim>\<open>*\<close>, \<^verbatim>\<open>/\<close> and \<^verbatim>\<open>+\<close> on floats give the exact result rounded to the
  nearest such number, a tie going to the even \<open>m\<close>. The model holds a finite float as
  the real number it denotes. Where the exact result is beyond the largest float, Python
  gives \<^verbatim>\<open>inf\<close>; infinities and \<^verbatim>\<open>nan\<close> are not values of the model, and the properties
  below that depend on a rounded value ask for \<open>normal_range\<close>.
\<close>

definition round_half_even :: "real \<Rightarrow> int" where
  "round_half_even x =
     (let f = \<lfloor>x\<rfloor>; d = x - of_int f
      in if d < 1 / 2 then f else if 1 / 2 < d then f + 1 else if even f then f else f + 1)"

text \<open>
  The exponent \<open>e\<close> of the floats next to \<open>x\<close>: the least one from \<open>-1074\<close> on with
  \<open>|x| < 2^(e + 53)\<close>, looked for in the exponents a float can have.
\<close>

fun find_exponent :: "nat \<Rightarrow> int \<Rightarrow> real \<Rightarrow> int" where
  "find_exponent 0 e x = e"
| "find_exponent (Suc n) e x =
     (if \<bar>x\<bar> < 2 powi (e + 53) then e else find_exponent n (e + 1) x)"

definition double_exponent :: "real \<Rightarrow> int" where
  "double_exponent x = find_exponent 2045 (- 1074) x"

definition round_double :: "real \<Rightarrow> real" where
  "round_double x =
     of_int (round_half_even (x / 2 powi double_exponent x)) * 2 powi double_exponent x"

text \<open>\<^verbatim>\<open>a * b\<close> and \<^verbatim>\<open>a + b\<close> on floats.\<close>

definition float_mul :: "real \<Rightarrow> real \<Rightarrow> real" where
  "float_mul a b = round_double (a * b)"

definition float_add :: "real \<Rightarrow> real \<Rightarrow> real" where
  "float_add a b = round_double (a + b)"

text \<open>
  \<^verbatim>\<open>a / b\<close> on floats: a division by zero raises \<^verbatim>\<open>ZeroDivisionError\<close>.
\<close>

definition py_div :: "real \<Rightarrow> real \<Rightarrow> py_error + real" where
  "py_div a b = (if b = 0 then Inl ZeroDivisionError else Inr (round_double (a / b)))"

text \<open>
  The magnitudes of the normal floats: from \<open>2^-1022\<close> up to, not including, \<open>2^1024\<close>.
  Below them a float has fewer than 53 significant bits, above them there is none.
\<close>

definition normal_range :: "real \<Rightarrow> bool" where
  "normal_range x \<longleftrightarrow> 2 powi (- 1022) \<le> \<bar>x\<bar> \<and> \<bar>x\<bar> < 2 powi 1024"

subsection \<open>lp_eq_values\<close>

text \<open>
  The season statistics a \<^verbatim>\<open>BeanstalkSqlClient\<close> returns from
  \<^verbatim>\<open>current_season_stats()\<close>, with the three entries \<^verbatim>\<open>lp_eq_values\<close> reads
  (\<^verbatim>\<open>'pooledEth'\<close>, \<^verbatim>\<open>'pooledBeans'\<close>, \<^verbatim>\<open>'lp'\<close>) already converted by
  \<^verbatim>\<open>float\<close>. The client class is not part of these sources; the model takes what it
  returns as given.
\<close>

record season_stats =
  pooledEth :: real
  pooledBeans :: real
  lp_supply :: real

record beanstalk_graph =
  current_season_stats :: season_stats

text \<open>
  \<^verbatim>\<open>
  def lp_eq_values(lp, total_lp=None, pooled_eth=None, pooled_beans=None,
                   beanstalk_graph_client=None):
      if beanstalk_graph_client:
          current_season_stats = beanstalk_graph_client.current_season_stats()
          pooled_eth = float(current_season_stats['pooledEth'])
          pooled_beans = float(current_season_stats['pooledBeans'])
          total_lp = float(current_season_stats['lp'])
      if None in [total_lp, pooled_eth, pooled_beans]:
          raise ValueError(...)
      bean_pool_ratio = pooled_beans / total_lp
      eth_pool_ratio = pooled_eth / total_lp
      eth_lp = lp * eth_pool_ratio
      bean_lp = lp * bean_pool_ratio
      return eth_lp, bean_lp
  \<close>
  An argument left at its default \<^verbatim>\<open>None\<close> is \<open>None\<close>. The two quotients and the
  two products are each rounded to a float.
\<close>

definition lp_eq_values ::
  "real \<Rightarrow> real option \<Rightarrow> real option \<Rightarrow> real option \<Rightarrow> beanstalk_graph option
    \<Rightarrow> py_error + real \<times> real" where
  "lp_eq_values lp total_lp pooled_eth pooled_beans beanstalk_graph_client =
     (let (pooled_eth, pooled_beans, total_lp) =
        (case beanstalk_graph_client of
           Some client \<Rightarrow>
             (let stats = current_season_stats client in
              (Some (pooledEth stats), Some (pooledBeans stats), Some (lp_supply stats)))
         | None \<Rightarrow> (pooled_eth, pooled_beans, total_lp))
      in case (total_lp, pooled_eth, pooled_beans) of
           (Some t, Some e, Some b) \<Rightarrow>
             (case py_div b t of
                Inl err \<Rightarrow> Inl err
              | Inr bean_pool_ratio \<Rightarrow>
                  (case py_div e t of
                     Inl err \<Rightarrow> Inl err
                   | Inr eth_pool_ratio \<Rightarrow>
                       let eth_lp = float_mul lp eth_pool_ratio;
                           bean_lp = float_mul lp bean_pool_ratio
                       in Inr (eth_lp, bean_lp)))
         | _ \<Rightarrow> Inl ValueError)"

section \<open>Event logs and their notification strings\<close>

subsection \<open>Event logs and what the functions reach outside this file\<close>

text \<open>
  A web3 event log, with the attributes the code reads: \<^verbatim>\<open>event\<close> (the kind),
  \<^verbatim>\<open>args\<close> (named integer amounts; \<^verbatim>\<open>args.get(k)\<close> is \<^verbatim>\<open>None\<close> for a missing key),
  \<^verbatim>\<open>logIndex\<close> and \<^verbatim>\<open>transactionHash\<close> (held here as the text \<^verbatim>\<open>.hex()\<close> returns).
\<close>

record event_log =
  event :: string
  args :: "(string \<times> int) list"
  logIndex :: int
  transactionHash :: string

text \<open>
  The module \<^verbatim>\<open>data_access.eth_chain\<close> is not part of these sources. Its unit
  conversions and signature lists are parameters of the model, and so is the text
  Python's float formatting produces in \<^verbatim>\<open>round_num\<close>: no digit of a formatted number
  is modelled.
\<close>

record externals =
  eth_to_float :: "int option \<Rightarrow> real"
  bean_to_float :: "int option \<Rightarrow> real"
  lp_to_float :: "int option \<Rightarrow> real"
  silo_conversion_sigs :: "string list"
  bean_deposit_sigs :: "string list"
  format_float :: "real \<Rightarrow> nat \<Rightarrow> string"

text \<open>What a \<^verbatim>\<open>BlockchainClient\<close> answers (also outside these sources).\<close>

record blockchain_client =
  current_eth_and_bean_price :: "real \<times> real"
  current_bean_price :: real
  avg_swap_price :: "real \<Rightarrow> real \<Rightarrow> real \<Rightarrow> real"

text \<open>
  What a function does besides returning: messages handed to \<^verbatim>\<open>message_function\<close> and
  calls of \<^verbatim>\<open>logging\<close>, in the order they happen. The text of a log line is not kept.
\<close>

datatype log_level = LogInfo | LogWarning | LogCritical | LogException

datatype effect = Message string | Log log_level


subsection \<open>Pieces of text\<close>

definition inbox_emoji :: string where
  "inbox_emoji = [CHR 0xF0, CHR 0x9F, CHR 0x93, CHR 0xA5]"

definition outbox_emoji :: string where
  "outbox_emoji = [CHR 0xF0, CHR 0x9F, CHR 0x93, CHR 0xA4]"

definition green_book_emoji :: string where
  "green_book_emoji = [CHR 0xF0, CHR 0x9F, CHR 0x93, CHR 0x97]"

definition red_book_emoji :: string where
  "red_book_emoji = [CHR 0xF0, CHR 0x9F, CHR 0x93, CHR 0x95]"

definition mailbox_emoji :: string where
  "mailbox_emoji = [CHR 0xF0, CHR 0x9F, CHR 0x93, CHR 0xAD]"

definition bags_emoji :: string where
  "bags_emoji = [CHR 0xF0, CHR 0x9F, CHR 0x9B, CHR 0x8D]"

definition tractor_emoji :: string where
  "tractor_emoji = [CHR 0xF0, CHR 0x9F, CHR 0x9A, CHR 0x9C]"

definition clockwise_emoji :: string where
  "clockwise_emoji = [CHR 0xF0, CHR 0x9F, CHR 0x94, CHR 0x83]"

definition counterclockwise_emoji :: string where
  "counterclockwise_emoji = [CHR 0xF0, CHR 0x9F, CHR 0x94, CHR 0x84]"

text \<open>\<^verbatim>\<open>round_num(number, precision=2)\<close>: the formatted number.\<close>

definition round_num :: "externals \<Rightarrow> real \<Rightarrow> nat \<Rightarrow> string" where
  "round_num x number precision = format_float x number precision"

text \<open>The line \<^verbatim>\<open>'\n<https://etherscan.io/tx/HASH>'\<close> and the line \<^verbatim>\<open>'\n_ _'\<close>.\<close>

definition tx_link :: "string \<Rightarrow> string" where
  "tx_link tx_hash = ''\<newline><https://etherscan.io/tx/'' @ tx_hash @ ''>''"

definition blank_line_marker :: string where
  "blank_line_marker = ''\<newline>_ _''"

text \<open>\<^verbatim>\<open>event_log.args.get(key)\<close>.\<close>

definition args_get :: "event_log \<Rightarrow> string \<Rightarrow> int option" where
  "args_get event_log k = map_of (args event_log) k"

subsection \<open>default_pool_event_str\<close>

text \<open>
  \<^verbatim>\<open>
  def default_pool_event_str(event_log, blockchain_client):
      event_str = ''
      eth_amount = eth_chain.eth_to_float(event_log.args.get('amount0'))
      ... (bean_amount, eth_in, eth_out, bean_in, bean_out)
      eth_price, bean_price = blockchain_client.current_eth_and_bean_price()
      if event_log.event in ['Mint', 'Burn']:
          if event_log.event == 'Mint': event_str += f'IN LP added - ...'
          if event_log.event == 'Burn': event_str += f'OUT LP removed - ...'
          lp_value = bean_amount * bean_price * 2
          event_str += f' (${round_num(lp_value)})'
          event_str += f'\n{value_to_emojis(lp_value)}'
      elif event_log.event == 'Swap':
          if eth_in > 0: ...
          elif bean_in > 0: ...
          else:
              logging.critical('Unexpected Swap args detected.')
              return ''
          event_str += ...
      event_str += f'\n<https://etherscan.io/tx/{event_log.transactionHash.hex()}>'
      event_str += '\n_ _'
      return event_str
  \<close>
\<close>

definition default_pool_event_str ::
  "externals \<Rightarrow> event_log \<Rightarrow> blockchain_client \<Rightarrow> string \<times> effect list" where
  "default_pool_event_str x event_log blockchain_client =
     (let eth_amount = eth_to_float x (args_get event_log ''amount0'');
          bean_amount = bean_to_float x (args_get event_log ''amount1'');
          eth_in = eth_to_float x (args_get event_log ''amount0In'');
          eth_out = eth_to_float x (args_get event_log ''amount0Out'');
          bean_in = bean_to_float x (args_get event_log ''amount1In'');
          bean_out = bean_to_float x (args_get event_log ''amount1Out'');
          (eth_price, bean_price) = current_eth_and_bean_price blockchain_client;
          footer = tx_link (transactionHash event_log) @ blank_line_marker
      in
      if event event_log = ''Mint'' \<or> event event_log = ''Burn'' then
        let added =
              (if event event_log = ''Mint''
               then inbox_emoji @ '' LP added - '' @ round_num x bean_amount 2
                    @ '' Beans and '' @ round_num x eth_amount 4 @ '' ETH''
               else []);
            removed =
              (if event event_log = ''Burn''
               then outbox_emoji @ '' LP removed - '' @ round_num x bean_amount 2
                    @ '' Beans and '' @ round_num x eth_amount 4 @ '' ETH''
               else []);
            lp_value = float_mul (float_mul bean_amount bean_price) 2
        in (added @ removed @ '' ($'' @ round_num x lp_value 2 @ '')''
            @ ''\<newline>'' @ value_to_emojis lp_value @ footer, [])
      else if event event_log = ''Swap'' then
        if eth_in > 0 then
          let swap_price = avg_swap_price blockchain_client eth_in bean_out eth_price;
              swap_value = float_mul swap_price bean_out
          in (green_book_emoji @ '' '' @ round_num x bean_out 2 @ '' Beans bought for ''
              @ round_num x eth_in 4 @ '' ETH''
              @ '' @ $'' @ round_num x swap_price 4 @ '' ($'' @ round_num x swap_value 2 @ '')''
              @ ''  -  Latest block price is $'' @ round_num x bean_price 4
              @ ''\<newline>'' @ value_to_emojis swap_value @ footer, [])
        else if bean_in > 0 then
          let swap_price = avg_swap_price blockchain_client eth_out bean_in eth_price;
              swap_value = float_mul swap_price bean_in
          in (red_book_emoji @ '' '' @ round_num x bean_in 2 @ '' Beans sold for ''
              @ round_num x eth_out 4 @ '' ETH''
              @ '' @ $'' @ round_num x swap_price 4 @ '' ($'' @ round_num x swap_value 2 @ '')''
              @ ''  -  Latest block price is $'' @ round_num x bean_price 4
              @ ''\<newline>'' @ value_to_emojis swap_value @ footer, [])
        else ([], [Log LogCritical])
      else (footer, []))"

subsection \<open>default_beanstalk_event_str\<close>

text \<open>
  \<^verbatim>\<open>
  def default_beanstalk_event_str(event_log, blockchain_client, beanstalk_graph_client):
      event_str = ''
      eth_price, bean_price = blockchain_client.current_eth_and_bean_price()
      lp_amount = eth_chain.lp_to_float(event_log.args.get('lp'))
      lp_eth, lp_beans = lp_eq_values(lp_amount, beanstalk_graph_client=beanstalk_graph_client)
      lp_value = lp_eth * eth_price + lp_beans * bean_price
      beans_amount = eth_chain.bean_to_float(event_log.args.get('beans'))
      beans_value = beans_amount * bean_price
      pods_amount = eth_chain.bean_to_float(event_log.args.get('pods'))
      if event_log.event in ['BeanRemove', 'LPRemove']:
          return ''
      elif event_log.event in ['LPDeposit', 'LPWithdraw', 'LPClaim']: ...
      elif event_log.event in ['BeanDeposit', 'BeanWithdraw', 'BeanClaim']: ...
      elif event_log.event == 'Sow': ...
      else:
          logging.warning(...)
          return ''
      event_str += f'\n<https://etherscan.io/tx/{event_log.transactionHash.hex()}>'
      event_str += '\n_ _'
      return event_str
  \<close>
  The caller may pass \<^verbatim>\<open>None\<close> for the log (see \<^verbatim>\<open>_handle_txn_logs\<close> below), and then
  \<^verbatim>\<open>event_log.args\<close> raises \<^verbatim>\<open>AttributeError\<close>.
\<close>

definition default_beanstalk_event_str ::
  "externals \<Rightarrow> event_log option \<Rightarrow> blockchain_client \<Rightarrow> beanstalk_graph option
    \<Rightarrow> (py_error + string) \<times> effect list" where
  "default_beanstalk_event_str x event_log_opt blockchain_client beanstalk_graph_client =
     (case event_log_opt of
        None \<Rightarrow> (Inl AttributeError, [])
      | Some event_log \<Rightarrow>
          (let (eth_price, bean_price) = current_eth_and_bean_price blockchain_client;
               lp_amount = lp_to_float x (args_get event_log ''lp'')
           in case lp_eq_values lp_amount None None None beanstalk_graph_client of
                Inl err \<Rightarrow> (Inl err, [])
              | Inr (lp_eth, lp_beans) \<Rightarrow>
                  (let lp_value = float_add (float_mul lp_eth eth_price) (float_mul lp_beans bean_price);
                       beans_amount = bean_to_float x (args_get event_log ''beans'');
                       beans_value = float_mul beans_amount bean_price;
                       pods_amount = bean_to_float x (args_get event_log ''pods'');
                       footer = tx_link (transactionHash event_log) @ blank_line_marker;
                       ev = event event_log
                   in
                   if ev = ''BeanRemove'' \<or> ev = ''LPRemove'' then (Inr [], [])
                   else if ev = ''LPDeposit'' \<or> ev = ''LPWithdraw'' \<or> ev = ''LPClaim'' then
                     (Inr ((if ev = ''LPDeposit'' then inbox_emoji @ '' LP deposited''
                            else if ev = ''LPWithdraw'' then mailbox_emoji @ '' LP withdrawn''
                            else bags_emoji @ '' LP claimed'')
                           @ '' - '' @ round_num x lp_beans 2 @ '' Beans and ''
                           @ round_num x lp_eth 4 @ '' ETH ($'' @ round_num x lp_value 2 @ '')''
                           @ ''\<newline>'' @ value_to_emojis lp_value @ footer), [])
                   else if ev = ''BeanDeposit'' \<or> ev = ''BeanWithdraw'' \<or> ev = ''BeanClaim'' then
                     (Inr ((if ev = ''BeanDeposit'' then inbox_emoji @ '' Beans deposited''
                            else if ev = ''BeanWithdraw'' then mailbox_emoji @ '' Beans withdrawn''
                            else bags_emoji @ '' Beans claimed'')
                           @ '' - '' @ round_num x beans_amount 2
                           @ '' Beans ($'' @ round_num x beans_value 2 @ '')''
                           @ ''\<newline>'' @ value_to_emojis beans_value @ footer), [])
                   else if ev = ''Sow'' then
                     (Inr (tractor_emoji @ '' '' @ round_num x beans_amount 2 @ '' Beans sown for ''
                           @ round_num x pods_amount 2 @ '' Pods ($''
                           @ round_num x beans_value 2 @ '')''
                           @ ''\<newline>'' @ value_to_emojis beans_value @ footer), [])
                   else (Inr [], [Log LogWarning]))))"

subsection \<open>silo_conversion_str\<close>

text \<open>
  \<^verbatim>\<open>
  def silo_conversion_str(event_logs, blockchain_client, beanstalk_graph_client):
      beans_converted = lp_converted = None
      bean_price = blockchain_client.current_bean_price()
      for event_log in event_logs:
          if event_log.event == 'BeanRemove':
              beans_converted = eth_chain.bean_to_float(event_log.args.get('beans'))
              value = beans_converted * bean_price
          elif event_log.event == 'LPRemove':
              lp_converted = eth_chain.lp_to_float(event_log.args.get('lp'))
              lp_converted_eth, lp_converted_beans = lp_eq_values(
                  lp_converted, beanstalk_graph_client=beanstalk_graph_client)
          if event_log.event == 'BeanDeposit':
              beans_deposited = eth_chain.bean_to_float(event_log.args.get('beans'))
              value = beans_deposited * bean_price
          elif event_log.event == 'LPDeposit':
              lp_deposited = eth_chain.lp_to_float(event_log.args.get('lp'))
              lp_deposited_eth, lp_deposited_beans = lp_eq_values(
                  lp_deposited, beanstalk_graph_client=beanstalk_graph_client)
              value = lp_deposited_beans * 2 * bean_price
      if beans_converted:
          event_str = f'CW {round_num(beans_converted)} siloed Beans converted to ...'
      elif lp_converted:
          event_str = f'CCW {round_num(lp_converted_eth,4)} ETH and ...'
      event_str += f'\n{value_to_emojis(value)}'
      event_str += f'\n<https://etherscan.io/tx/{event_logs[0].transactionHash.hex()}>'
      return event_str
  \<close>
  The local variables of the function. \<^verbatim>\<open>beans_converted\<close> and \<^verbatim>\<open>lp_converted\<close> start
  as Python's \<^verbatim>\<open>None\<close>; for the others \<open>None\<close> says that the name is not bound yet, and
  reading it raises \<^verbatim>\<open>UnboundLocalError\<close>.
\<close>

record silo_locals =
  beans_converted :: "real option"
  lp_converted :: "real option"
  val :: "real option"
  lp_converted_eth :: "real option"
  lp_converted_beans :: "real option"
  beans_deposited :: "real option"
  lp_deposited :: "real option"
  lp_deposited_eth :: "real option"
  lp_deposited_beans :: "real option"

definition silo_locals_init :: silo_locals where
  "silo_locals_init =
     \<lparr>beans_converted = None, lp_converted = None, val = None, lp_converted_eth = None,
      lp_converted_beans = None, beans_deposited = None, lp_deposited = None,
      lp_deposited_eth = None, lp_deposited_beans = None\<rparr>"

text \<open>One pass of the \<^verbatim>\<open>for\<close> loop. The log may be \<^verbatim>\<open>None\<close>.\<close>

definition silo_remove_step ::
  "externals \<Rightarrow> real \<Rightarrow> beanstalk_graph option \<Rightarrow> event_log \<Rightarrow> silo_locals
    \<Rightarrow> py_error + silo_locals" where
  "silo_remove_step x bean_price beanstalk_graph_client event_log s =
     (if event event_log = ''BeanRemove'' then
        let bc = bean_to_float x (args_get event_log ''beans'')
        in Inr (s\<lparr>beans_converted := Some bc, val := Some (float_mul bc bean_price)\<rparr>)
      else if event event_log = ''LPRemove'' then
        let lc = lp_to_float x (args_get event_log ''lp'')
        in case lp_eq_values lc None None None beanstalk_graph_client of
             Inl err \<Rightarrow> Inl err
           | Inr (e, b) \<Rightarrow>
               Inr (s\<lparr>lp_converted := Some lc, lp_converted_eth := Some e,
                      lp_converted_beans := Some b\<rparr>)
      else Inr s)"

definition silo_deposit_step ::
  "externals \<Rightarrow> real \<Rightarrow> beanstalk_graph option \<Rightarrow> event_log \<Rightarrow> silo_locals
    \<Rightarrow> py_error + silo_locals" where
  "silo_deposit_step x bean_price beanstalk_graph_client event_log s =
     (if event event_log = ''BeanDeposit'' then
        let bd = bean_to_float x (args_get event_log ''beans'')
        in Inr (s\<lparr>beans_deposited := Some bd, val := Some (float_mul bd bean_price)\<rparr>)
      else if event event_log = ''LPDeposit'' then
        let ld = lp_to_float x (args_get event_log ''lp'')
        in case lp_eq_values ld None None None beanstalk_graph_client of
             Inl err \<Rightarrow> Inl err
           | Inr (e, b) \<Rightarrow>
               Inr (s\<lparr>lp_deposited := Some ld, lp_deposited_eth := Some e,
                      lp_deposited_beans := Some b, val := Some (float_mul (float_mul b 2) bean_price)\<rparr>)
      else Inr s)"

definition silo_step ::
  "externals \<Rightarrow> real \<Rightarrow> beanstalk_graph option \<Rightarrow> event_log option \<Rightarrow> silo_locals
    \<Rightarrow> py_error + silo_locals" where
  "silo_step x bean_price beanstalk_graph_client event_log_opt s =
     (case event_log_opt of
        None \<Rightarrow> Inl AttributeError
      | Some event_log \<Rightarrow>
          (case silo_remove_step x bean_price beanstalk_graph_client event_log s of
             Inl err \<Rightarrow> Inl err
           | Inr s' \<Rightarrow> silo_deposit_step x bean_price beanstalk_graph_client event_log s'))"

fun silo_loop ::
  "externals \<Rightarrow> real \<Rightarrow> beanstalk_graph option \<Rightarrow> event_log option list \<Rightarrow> silo_locals
    \<Rightarrow> py_error + silo_locals" where
  "silo_loop x bean_price g [] s = Inr s"
| "silo_loop x bean_price g (l # ls) s =
     (case silo_step x bean_price g l s of
        Inl err \<Rightarrow> Inl err
      | Inr s' \<Rightarrow> silo_loop x bean_price g ls s')"

text \<open>\<^verbatim>\<open>if v:\<close> on a float or \<^verbatim>\<open>None\<close>.\<close>

definition truthy :: "real option \<Rightarrow> bool" where
  "truthy v = (case v of None \<Rightarrow> False | Some r \<Rightarrow> r \<noteq> 0)"

text \<open>Reading a local name.\<close>

definition read_local :: "real option \<Rightarrow> py_error + real" where
  "read_local v = (case v of None \<Rightarrow> Inl UnboundLocalError | Some r \<Rightarrow> Inr r)"

text \<open>The text built after the loop, before the two lines appended to it.\<close>

definition silo_headline :: "externals \<Rightarrow> silo_locals \<Rightarrow> py_error + string" where
  "silo_headline x s =
     (if truthy (beans_converted s) then
        (case (beans_converted s, lp_deposited_eth s, lp_deposited_beans s, val s) of
           (Some bc, Some de, Some db, Some v) \<Rightarrow>
             Inr (clockwise_emoji @ '' '' @ round_num x bc 2 @ '' siloed Beans converted to ''
                  @ round_num x de 4 @ '' ETH & '' @ round_num x db 2
                  @ '' Beans of LP ($'' @ round_num x v 2 @ '')'')
         | _ \<Rightarrow> Inl UnboundLocalError)
      else if truthy (lp_converted s) then
        (case (lp_converted_eth s, lp_converted_beans s, beans_deposited s, val s) of
           (Some ce, Some cb, Some bd, Some v) \<Rightarrow>
             Inr (counterclockwise_emoji @ '' '' @ round_num x ce 4 @ '' ETH and ''
                  @ round_num x cb 2 @ '' Beans of siloed LP converted to ''
                  @ round_num x bd 2 @ '' siloed Beans ($'' @ round_num x v 2 @ '')'')
         | _ \<Rightarrow> Inl UnboundLocalError)
      else Inl UnboundLocalError)"

text \<open>\<^verbatim>\<open>event_logs[0].transactionHash\<close>.\<close>

definition first_tx_hash :: "event_log option list \<Rightarrow> py_error + string" where
  "first_tx_hash event_logs =
     (case event_logs of
        [] \<Rightarrow> Inl IndexError
      | None # _ \<Rightarrow> Inl AttributeError
      | Some l # _ \<Rightarrow> Inr (transactionHash l))"

definition silo_conversion_str ::
  "externals \<Rightarrow> event_log option list \<Rightarrow> blockchain_client \<Rightarrow> beanstalk_graph option
    \<Rightarrow> py_error + string" where
  "silo_conversion_str x event_logs blockchain_client beanstalk_graph_client =
     (let bean_price = current_bean_price blockchain_client
      in case silo_loop x bean_price beanstalk_graph_client event_logs silo_locals_init of
           Inl err \<Rightarrow> Inl err
         | Inr s \<Rightarrow>
             (case silo_headline x s of
                Inl err \<Rightarrow> Inl err
              | Inr event_str \<Rightarrow>
                  (case read_local (val s) of
                     Inl err \<Rightarrow> Inl err
                   | Inr v \<Rightarrow>
                       (case first_tx_hash event_logs of
                          Inl err \<Rightarrow> Inl err
                        | Inr h \<Rightarrow>
                            Inr (event_str @ ''\<newline>'' @ value_to_emojis v @ tx_link h)))))"

subsection \<open>multi_sig_compare\<close>

text \<open>
  \<^verbatim>\<open>
  def multi_sig_compare(signature, signatures):
      for sig in signatures:
          if signature[:9] == sig[:9]:
              return True
      return False
  \<close>
\<close>

fun multi_sig_compare :: "string \<Rightarrow> string list \<Rightarrow> bool" where
  "multi_sig_compare signature [] = False"
| "multi_sig_compare signature (sig # sigs) =
     (if take 9 signature = take 9 sig then True else multi_sig_compare signature sigs)"

subsection \<open>BeanstalkMonitor._handle_txn_logs\<close>

text \<open>
  \<^verbatim>\<open>
  def _handle_txn_logs(self, txn_hash, event_logs):
      transaction = self.blockchain_client._web3.eth.get_transaction(txn_hash)
      txn_method_sig_prefix = transaction['input'][:9]
      last_bean_deposit = None
      bean_deposit_logs = []
      for event_log in event_logs:
          if event_log.event == 'BeanDeposit':
              if last_bean_deposit is None or event_log.logIndex > last_bean_deposit.logIndex:
                  last_bean_deposit = event_log
              bean_deposit_logs.append(event_log)
      for event_log in bean_deposit_logs:
          event_logs.remove(event_log)
      if multi_sig_compare(txn_method_sig_prefix, eth_chain.silo_conversion_sigs):
          logging.info(...)
          event_logs.append(last_bean_deposit)
          self.message_function(silo_conversion_str(event_logs, ...))
          return
      elif multi_sig_compare(txn_method_sig_prefix, eth_chain.bean_deposit_sigs):
          logging.info(...)
          event_logs.append(last_bean_deposit)
      for event_log in event_logs:
          event_str = default_beanstalk_event_str(event_log, ...)
          self.message_function(event_str)
  \<close>
  The first loop, with its two variables as the accumulator.
\<close>

fun prune_scan ::
  "event_log list \<Rightarrow> event_log option \<times> event_log list \<Rightarrow> event_log option \<times> event_log list"
  where
  "prune_scan [] acc = acc"
| "prune_scan (event_log # rest) (last_bean_deposit, bean_deposit_logs) =
     (if event event_log = ''BeanDeposit'' then
        prune_scan rest
          ((case last_bean_deposit of
              None \<Rightarrow> Some event_log
            | Some d \<Rightarrow> if logIndex event_log > logIndex d then Some event_log else Some d),
           bean_deposit_logs @ [event_log])
      else prune_scan rest (last_bean_deposit, bean_deposit_logs))"

text \<open>
  \<^verbatim>\<open>list.remove(v)\<close> deletes the first element equal to \<^verbatim>\<open>v\<close> and raises
  \<^verbatim>\<open>ValueError\<close> when there is none. The second loop:
\<close>

definition py_remove :: "'a \<Rightarrow> 'a list \<Rightarrow> py_error + 'a list" where
  "py_remove v xs = (if v \<in> set xs then Inr (remove1 v xs) else Inl ValueError)"

fun remove_each :: "'a list \<Rightarrow> 'a list \<Rightarrow> py_error + 'a list" where
  "remove_each [] event_logs = Inr event_logs"
| "remove_each (d # ds) event_logs =
     (case py_remove d event_logs of
        Inl err \<Rightarrow> Inl err
      | Inr event_logs' \<Rightarrow> remove_each ds event_logs')"

text \<open>
  The last loop: each string is handed to \<^verbatim>\<open>message_function\<close>, empty or not; an
  exception ends the loop after the messages already sent.
\<close>

fun send_default_strs ::
  "externals \<Rightarrow> blockchain_client \<Rightarrow> beanstalk_graph option \<Rightarrow> event_log option list
    \<Rightarrow> py_error option \<times> effect list" where
  "send_default_strs x bc g [] = (None, [])"
| "send_default_strs x bc g (l # ls) =
     (case default_beanstalk_event_str x l bc g of
        (Inl err, effs) \<Rightarrow> (Some err, effs)
      | (Inr event_str, effs) \<Rightarrow>
          (let (r, rest) = send_default_strs x bc g ls
           in (r, effs @ [Message event_str] @ rest)))"

text \<open>
  The handler. \<open>txn_input\<close> is \<^verbatim>\<open>transaction['input']\<close> of the transaction looked up by
  its hash; the monitor's own graph client is always present. The result is the
  exception that ended the call, if any, and what the call did.
\<close>

definition handle_txn_logs ::
  "externals \<Rightarrow> blockchain_client \<Rightarrow> beanstalk_graph \<Rightarrow> string \<Rightarrow> event_log list
    \<Rightarrow> py_error option \<times> effect list" where
  "handle_txn_logs x bc g txn_input event_logs =
     (let txn_method_sig_prefix = take 9 txn_input;
          (last_bean_deposit, bean_deposit_logs) = prune_scan event_logs (None, [])
      in case remove_each bean_deposit_logs event_logs of
           Inl err \<Rightarrow> (Some err, [])
         | Inr pruned \<Rightarrow>
             if multi_sig_compare txn_method_sig_prefix (silo_conversion_sigs x) then
               (case silo_conversion_str x (map Some pruned @ [last_bean_deposit]) bc (Some g) of
                  Inl err \<Rightarrow> (Some err, [Log LogInfo])
                | Inr s \<Rightarrow> (None, [Log LogInfo, Message s]))
             else if multi_sig_compare txn_method_sig_prefix (bean_deposit_sigs x) then
               (let (r, effs) =
                      send_default_strs x bc (Some g) (map Some pruned @ [last_bean_deposit])
                in (r, Log LogInfo # effs))
             else send_default_strs x bc (Some g) (map Some pruned))"

subsection \<open>Reading the handler's input and output\<close>

text \<open>The logs of a group that the pruning step looks for, and the others.\<close>

definition is_bean_deposit :: "event_log \<Rightarrow> bool" where
  "is_bean_deposit event_log = (event event_log = ''BeanDeposit'')"

definition bean_deposits :: "event_log list \<Rightarrow> event_log list" where
  "bean_deposits event_logs = filter is_bean_deposit event_logs"

definition other_logs :: "event_log list \<Rightarrow> event_log list" where
  "other_logs event_logs = filter (\<lambda>l. \<not> is_bean_deposit l) event_logs"

text \<open>\<^verbatim>\<open>s.endswith(suf)\<close>.\<close>

definition ends_with :: "string \<Rightarrow> string \<Rightarrow> bool" where
  "ends_with suf s = (length suf \<le> length s \<and> drop (length s - length suf) s = suf)"

subsection \<open>Sample data\<close>

text \<open>
  Concrete collaborators and logs, used to run the definitions on an input: unit
  conversions without scaling, one signature per list, and a formatter that prints
  every number as \<open>N\<close>.
\<close>

definition sample_externals :: externals where
  "sample_externals =
     \<lparr>eth_to_float = (\<lambda>v. case v of None \<Rightarrow> 0 | Some n \<Rightarrow> of_int n),
      bean_to_float = (\<lambda>v. case v of None \<Rightarrow> 0 | Some n \<Rightarrow> of_int n),
      lp_to_float = (\<lambda>v. case v of None \<Rightarrow> 0 | Some n \<Rightarrow> of_int n),
      silo_conversion_sigs = [''0x2a6a4d4b''],
      bean_deposit_sigs = [''0x75ce258d''],
      format_float = (\<lambda>r p. ''N'')\<rparr>"

definition sample_blockchain :: blockchain_client where
  "sample_blockchain =
     \<lparr>current_eth_and_bean_price = (4000, 1),
      current_bean_price = 1,
      avg_swap_price = (\<lambda>eth beans eth_price. eth * eth_price / beans)\<rparr>"

definition sample_graph :: beanstalk_graph where
  "sample_graph =
     \<lparr>current_season_stats = \<lparr>pooledEth = 50, pooledBeans = 200000, lp_supply = 100\<rparr>\<rparr>"

definition sample_log :: "string \<Rightarrow> string \<Rightarrow> int \<Rightarrow> int \<Rightarrow> event_log" where
  "sample_log kind arg amount pos =
     \<lparr>event = kind, args = [(arg, amount)], logIndex = pos, transactionHash = ''0xabc''\<rparr>"

text \<open>
  The group \<^verbatim>\<open>[BeanDeposit(pos=1), LPRemove(pos=2), BeanDeposit(pos=3)]\<close> and the call
  data of a silo conversion and of a plain deposit.
\<close>

definition sample_conversion_logs :: "event_log list" where
  "sample_conversion_logs =
     [sample_log ''BeanDeposit'' ''beans'' 300 1,
      sample_log ''LPRemove'' ''lp'' 2 2,
      sample_log ''BeanDeposit'' ''beans'' 4000 3]"

definition sample_conversion_input :: string where
  "sample_conversion_input = ''0x2a6a4d4b0000000000000000''"

definition sample_deposit_input :: string where
  "sample_deposit_input = ''0x75ce258d0000000000000000''"

section \<open>The peg cross monitor\<close>

subsection \<open>Cross records and the graph client\<close>

text \<open>
  A cross record of the Bean graph with the entries the monitor reads: \<^verbatim>\<open>'timestamp'\<close>,
  \<^verbatim>\<open>'id'\<close> (after \<^verbatim>\<open>int(...)\<close>) and \<^verbatim>\<open>'above'\<close>. Timestamps are held as numbers.
\<close>

record cross =
  timestamp :: int
  cross_id :: int
  above :: bool

datatype PegCrossType = NO_CROSS | CROSS_ABOVE | CROSS_BELOW

text \<open>
  The class \<^verbatim>\<open>BeanSqlClient\<close> is not part of these sources. The monitor calls
  \<^verbatim>\<open>last_cross()\<close> and \<^verbatim>\<open>get_last_crosses(n=...)\<close>; what the two calls answer is a
  parameter of the model.
\<close>

record bean_graph =
  last_cross :: cross
  get_last_crosses :: "int \<Rightarrow> cross list"

text \<open>The calls a check makes to the client, in order.\<close>

datatype graph_call = LastCross | GetLastCrosses int

subsection \<open>PegCrossMonitor._check_for_peg_crosses\<close>

text \<open>
  \<^verbatim>\<open>
  def _check_for_peg_crosses(self):
      last_cross = self.bean_graph_client.last_cross()
      if not self.last_known_cross:
          logging.info(...)
          self.last_known_cross = last_cross
          return [PegCrossType.NO_CROSS]
      if last_cross[TIMESTAMP_KEY] <= self.last_known_cross[TIMESTAMP_KEY]:
          return [PegCrossType.NO_CROSS]
      number_of_new_crosses = int(last_cross['id']) - int(self.last_known_cross['id'])
      if number_of_new_crosses > 1:
          new_cross_list = self.bean_graph_client.get_last_crosses(n=number_of_new_crosses)
      else:
          new_cross_list = [last_cross]
      self.last_known_cross = last_cross
      cross_types = []
      for cross in new_cross_list:
          if cross['above']:
              logging.info('Price crossed above peg.')
              cross_types.append(PegCrossType.CROSS_ABOVE)
          else:
              logging.info('Price crossed below peg.')
              cross_types.append(PegCrossType.CROSS_BELOW)
      return cross_types
  \<close>
  The state is \<^verbatim>\<open>self.last_known_cross\<close>. The result is the returned list, the new
  state, and the calls made to the client.
\<close>

definition cross_type_of :: "cross \<Rightarrow> PegCrossType" where
  "cross_type_of c = (if above c then CROSS_ABOVE else CROSS_BELOW)"

definition check_for_peg_crosses ::
  "bean_graph \<Rightarrow> cross option \<Rightarrow> PegCrossType list \<times> cross option \<times> graph_call list" where
  "check_for_peg_crosses client last_known_cross =
     (let latest = last_cross client in
      case last_known_cross of
        None \<Rightarrow> ([NO_CROSS], Some latest, [LastCross])
      | Some known \<Rightarrow>
          if timestamp latest \<le> timestamp known then ([NO_CROSS], Some known, [LastCross])
          else
            let number_of_new_crosses = cross_id latest - cross_id known in
            if number_of_new_crosses > 1 then
              (map cross_type_of (get_last_crosses client number_of_new_crosses),
               Some latest, [LastCross, GetLastCrosses number_of_new_crosses])
            else ([cross_type_of latest], Some latest, [LastCross]))"

subsection \<open>What the monitor sends\<close>

definition green_square_emoji :: string where
  "green_square_emoji = [CHR 0xF0, CHR 0x9F, CHR 0x9F, CHR 0xA9]"

definition red_square_emoji :: string where
  "red_square_emoji = [CHR 0xF0, CHR 0x9F, CHR 0x9F, CHR 0xA5]"

definition north_east_arrow :: string where
  "north_east_arrow = [CHR 0xE2, CHR 0x86, CHR 0x97]"

definition south_east_arrow :: string where
  "south_east_arrow = [CHR 0xE2, CHR 0x86, CHR 0x98]"

fun peg_cross_string :: "PegCrossType \<Rightarrow> string" where
  "peg_cross_string CROSS_ABOVE = green_square_emoji @ north_east_arrow @ '' BEAN crossed above peg!''"
| "peg_cross_string CROSS_BELOW = red_square_emoji @ south_east_arrow @ '' BEAN crossed below peg!''"
| "peg_cross_string NO_CROSS = ''Peg not crossed.''"

text \<open>
  One pass of the loop in \<^verbatim>\<open>_monitor_method\<close>, once the update time has come:
  \<^verbatim>\<open>
  cross_types = self._check_for_peg_crosses()
  for cross_type in cross_types:
      if cross_type != PegCrossType.NO_CROSS:
          output_str = PegCrossMonitor.peg_cross_string(cross_type)
          self.message_function(output_str)
  \<close>
  The result is the new state and the messages sent.
\<close>

fun send_crosses :: "PegCrossType list \<Rightarrow> string list" where
  "send_crosses [] = []"
| "send_crosses (cross_type # cross_types) =
     (if cross_type \<noteq> NO_CROSS then peg_cross_string cross_type # send_crosses cross_types
      else send_crosses cross_types)"

definition peg_poll :: "bean_graph \<Rightarrow> cross option \<Rightarrow> cross option \<times> string list" where
  "peg_poll client last_known_cross =
     (case check_for_peg_crosses client last_known_cross of
        (cross_types, state, calls) \<Rightarrow> (state, send_crosses cross_types))"

subsection \<open>A graph that answers from its list of crosses\<close>

text \<open>
  Modelled from the spec: the cross source (\<^verbatim>\<open>BeanSqlClient\<close>, whose code is not in
  these sources). The spec's interface gives \<^verbatim>\<open>latest_cross() -> {id, timestamp, above}\<close>
  and an ordered run of the most recent records, oldest first ("fetch the full ordered
  run of delta intervening cross records (oldest to newest)"). Here the graph holds its
  crosses in the order they happened; the latest cross is the last of them, and a
  request for \<open>n\<close> records answers the last \<open>n\<close>, oldest first.
\<close>

definition graph_of :: "cross list \<Rightarrow> bean_graph" where
  "graph_of crosses =
     \<lparr>last_cross = last crosses,
      get_last_crosses = (\<lambda>n. drop (length crosses - nat n) crosses)\<rparr>"

text \<open>
  A run of polls over a growing graph: the poll numbered \<open>i\<close> sees the first
  \<open>ns ! i\<close> crosses of \<open>crosses\<close>. The result is every message sent, in order.
\<close>

fun run_polls :: "cross list \<Rightarrow> nat list \<Rightarrow> cross option \<Rightarrow> string list" where
  "run_polls crosses [] state = []"
| "run_polls crosses (n # ns) state =
     (case peg_poll (graph_of (take n crosses)) state of
        (state', sent) \<Rightarrow> sent @ run_polls crosses ns state')"

text \<open>Crosses numbered consecutively, with strictly increasing timestamps.\<close>

definition consecutive_ids :: "cross list \<Rightarrow> bool" where
  "consecutive_ids crosses =
     (map cross_id crosses = map (\<lambda>i. cross_id (hd crosses) + int i) [0..<length crosses])"

definition increasing_timestamps :: "cross list \<Rightarrow> bool" where
  "increasing_timestamps crosses = sorted_wrt (<) (map timestamp crosses)"

text \<open>Four crosses, numbered 1 to 4, for running the definitions.\<close>

definition sample_crosses :: "cross list" where
  "sample_crosses =
     [\<lparr>timestamp = 100, cross_id = 1, above = True\<rparr>,
      \<lparr>timestamp = 200, cross_id = 2, above = False\<rparr>,
      \<lparr>timestamp = 300, cross_id = 3, above = True\<rparr>,
      \<lparr>timestamp = 400, cross_id = 4, above = False\<rparr>]"

text \<open>
  Two crosses with ids 1 and 2 and the same timestamp, and two crosses with ids 1 and 3
  (an id is missing between them).
\<close>

definition tied_crosses :: "cross list" where
  "tied_crosses =
     [\<lparr>timestamp = 100, cross_id = 1, above = True\<rparr>,
      \<lparr>timestamp = 100, cross_id = 2, above = False\<rparr>]"

definition gapped_crosses :: "cross list" where
  "gapped_crosses =
     [\<lparr>timestamp = 100, cross_id = 1, above = True\<rparr>,
      \<lparr>timestamp = 200, cross_id = 3, above = False\<rparr>]"

section \<open>The monitor thread\<close>

subsection \<open>Monitor._thread_wrapper_method\<close>

text \<open>
  \<^verbatim>\<open>
  MONITOR_RESET_DELAY = 5

  def _thread_wrapper_method(self):
      retry_time = 0
      while self._thread_active:
          if time.time() < retry_time:
              time.sleep(0.5)
              continue
          try:
              self._monitor_method()
          except Exception as e:
              logging.exception(...)
              logging.exception(e)
          retry_time = time.time() + MONITOR_RESET_DELAY
  \<close>
  The loop runs on a thread of its own and reads the clock. In the model the clock is a
  field of the state: it advances by the time slept and by the time a call of the body
  takes, and by nothing else. The body is given by what its calls do, one after the
  other: how a call ends and how long it ran.
\<close>

definition MONITOR_RESET_DELAY :: real where
  "MONITOR_RESET_DELAY = 5"

text \<open>
  How a call of \<^verbatim>\<open>_monitor_method\<close> ends: it returns, it raises an exception of class
  \<^verbatim>\<open>Exception\<close>, or it raises one outside that class (\<^verbatim>\<open>SystemExit\<close>,
  \<^verbatim>\<open>KeyboardInterrupt\<close>), which \<^verbatim>\<open>except Exception\<close> does not catch.
\<close>

datatype body_result = Returned | Raised | Escaped

type_synonym monitor_body = "nat \<Rightarrow> body_result \<times> real"

text \<open>
  The thread: the flag \<^verbatim>\<open>_thread_active\<close>, whether the wrapper method is still running
  (the thread is alive), the clock, the local \<^verbatim>\<open>retry_time\<close>, the calls of the body
  made so far with the clock at the start and at the end of each, and the log.
\<close>

record monitor_thread =
  thread_active :: bool
  alive :: bool
  clock :: real
  retry_time :: real
  calls :: nat
  started_at :: "real list"
  finished_at :: "real list"
  logged :: "log_level list"


text \<open>One test of the \<^verbatim>\<open>while\<close> condition and, if it holds, one pass of the loop body.\<close>

definition wrapper_iteration :: "monitor_body \<Rightarrow> monitor_thread \<Rightarrow> monitor_thread" where
  "wrapper_iteration body st =
     (if \<not> alive st then st
      else if \<not> thread_active st then st\<lparr>alive := False\<rparr>
      else if clock st < retry_time st then st\<lparr>clock := clock st + 1 / 2\<rparr>
      else
        (case body (calls st) of
           (res, duration) \<Rightarrow>
             let t = clock st + duration;
                 st' = st\<lparr>clock := t, calls := Suc (calls st),
                          started_at := started_at st @ [clock st],
                          finished_at := finished_at st @ [t]\<rparr>
             in case res of
                  Returned \<Rightarrow> st'\<lparr>retry_time := t + MONITOR_RESET_DELAY\<rparr>
                | Raised \<Rightarrow>
                    st'\<lparr>logged := logged st @ [LogException, LogException],
                        retry_time := t + MONITOR_RESET_DELAY\<rparr>
                | Escaped \<Rightarrow> st'\<lparr>alive := False\<rparr>))"








section \<open>Properties of the formatting utilities\<close>

subsection \<open>Rounding\<close>

lemma py_int_of_int: "py_int (of_int v) = v"
  by (simp add: py_int_def)

lemma py_round_nearest:
  assumes "0 < m"
  shows "m dvd py_round v m" and "2 * \<bar>v - py_round v m\<bar> \<le> m"
proof -
  have r_bounds: "0 \<le> v mod m" "v mod m < m" using assms by simp_all
  show "m dvd py_round v m"
    by (simp add: py_round_def Let_def)
  have "v - (v div m) * m = v mod m"
    by (simp add: minus_div_mult_eq_mod)
  moreover have "v - (v div m + 1) * m = v mod m - m"
    by (simp add: algebra_simps minus_div_mult_eq_mod [symmetric])
  ultimately show "2 * \<bar>v - py_round v m\<bar> \<le> m"
    using r_bounds by (auto simp add: py_round_def Let_def)
qed

lemma py_round_nonneg: "0 < m \<Longrightarrow> 0 \<le> v \<Longrightarrow> 0 \<le> py_round v m"
  by (simp add: py_round_def Let_def pos_imp_zdiv_nonneg_iff)

lemma py_round_fixed: "0 < m \<Longrightarrow> m dvd v \<Longrightarrow> py_round v m = v"
  by (auto simp add: py_round_def Let_def)

lemma py_round_mono:
  assumes m: "0 < m" and ab: "a \<le> b"
  shows "py_round a m \<le> py_round b m"
proof (cases "a div m = b div m")
  case True
  have "a = (a div m) * m + a mod m" "b = (b div m) * m + b mod m" by simp_all
  with True ab have "a mod m \<le> b mod m"
    by (metis add_le_cancel_left)
  with True m show ?thesis
    by (auto simp add: py_round_def Let_def)
next
  case False
  with ab m have lt: "a div m < b div m"
    by (metis zdiv_mono1 order_le_imp_less_or_eq)
  have "py_round a m \<le> (a div m + 1) * m"
    using m by (auto simp add: py_round_def Let_def algebra_simps)
  also have "\<dots> \<le> (b div m) * m"
    using lt m by simp
  also have "\<dots> \<le> py_round b m"
    using m by (auto simp add: py_round_def Let_def algebra_simps)
  finally show ?thesis .
qed

lemma py_round_ge:
  assumes "0 < m" "m dvd c" "c \<le> v"
  shows "c \<le> py_round v m"
  using py_round_mono [OF assms(1) assms(3)] py_round_fixed [OF assms(1) assms(2)] by simp

lemma py_round_div_mult: "0 < m \<Longrightarrow> py_round v m div m * m = py_round v m"
  using py_round_nearest(1) [of m v] by simp

subsection \<open>Repeated symbols\<close>

lemma nat_pos_Suc: "1 \<le> k \<Longrightarrow> \<exists>n. nat k = Suc n"
  by (cases "nat k") auto

lemma str_times_length: "0 \<le> k \<Longrightarrow> int (length (str_times s k)) = int (length s) * k"
  by (simp add: str_times_def length_concat sum_list_replicate)

lemma str_times_take:
  assumes "1 \<le> k"
  shows "take (length s) (str_times s k) = s"
proof -
  from nat_pos_Suc [OF assms] obtain n where "nat k = Suc n" ..
  then show ?thesis by (simp add: str_times_def)
qed

lemma emoji_lengths:
  "length fish_emoji = 4" "length shark_emoji = 4" "length whale_emoji = 4"
  by (simp_all add: fish_emoji_def shark_emoji_def whale_emoji_def)

lemma emoji_distinct:
  "shark_emoji \<noteq> fish_emoji" "whale_emoji \<noteq> fish_emoji" "whale_emoji \<noteq> shark_emoji"
  by (simp_all add: fish_emoji_def shark_emoji_def whale_emoji_def)

lemma magnitude_fish: "1 \<le> k \<Longrightarrow> emoji_magnitude (str_times fish_emoji k) = 1000 * k"
  using str_times_take [of k fish_emoji] str_times_length [of k fish_emoji]
  by (simp add: emoji_magnitude_def emoji_count_def emoji_lengths)

lemma magnitude_shark: "1 \<le> k \<Longrightarrow> emoji_magnitude (str_times shark_emoji k) = 10000 * k"
  using str_times_take [of k shark_emoji] str_times_length [of k shark_emoji]
  by (simp add: emoji_magnitude_def emoji_count_def emoji_lengths emoji_distinct)

lemma magnitude_whale: "1 \<le> k \<Longrightarrow> emoji_magnitude (str_times whale_emoji k) = 100000 * k"
  using str_times_take [of k whale_emoji] str_times_length [of k whale_emoji]
  by (simp add: emoji_magnitude_def emoji_count_def emoji_lengths emoji_distinct)

lemma str_or_fish: "str_or (str_times fish_emoji k) fish_emoji = str_times fish_emoji (max 1 k)"
proof (cases "1 \<le> k")
  case True
  from nat_pos_Suc [OF True] obtain n where "nat k = Suc n" ..
  with True show ?thesis
    by (simp add: str_or_def str_times_def fish_emoji_def max_def)
next
  case False
  then show ?thesis
    by (simp add: str_or_def str_times_def max_def)
qed

subsection \<open>The tiers of value_to_emojis\<close>

lemma value_to_emojis_int:
  fixes v :: int
  shows "value_to_emojis (of_int v) =
     (if v < 0 then []
      else let r = py_round v 1000 in
        if r < 10000 then str_times fish_emoji (max 1 (r div 1000))
        else let r' = py_round r 10000 in
          if r' < 100000 then str_times shark_emoji (r' div 10000)
          else str_times whale_emoji (py_round r' 100000 div 100000))"
  by (simp add: value_to_emojis_def py_int_of_int Let_def str_or_fish)

text \<open>
  Claim C5, as the code has it. For every integer dollar value \<open>v\<close>: a negative \<open>v\<close>
  renders as the empty string. Otherwise, with \<open>r\<close> the multiple of 1,000 nearest to
  \<open>v\<close>: if \<open>r < 10,000\<close> the result is one tier-1 symbol per thousand of \<open>r\<close>, and at
  least one symbol for every non-negative \<open>v\<close>, zero included. Otherwise, with \<open>r'\<close> the
  multiple of 10,000 nearest to \<open>r\<close>: if \<open>r' < 100,000\<close> the result is one tier-2 symbol
  per ten-thousand of \<open>r'\<close>; otherwise it is one tier-3 symbol per hundred-thousand of
  the multiple of 100,000 nearest to \<open>r'\<close>. Each rounding yields a multiple of its unit
  at distance at most half the unit.
\<close>

theorem value_to_emojis_tiers:
  fixes v :: int
  shows "value_to_emojis (of_int v) =
       (if v < 0 then []
        else let r = py_round v 1000 in
          if r < 10000 then str_times fish_emoji (max 1 (r div 1000))
          else let r' = py_round r 10000 in
            if r' < 100000 then str_times shark_emoji (r' div 10000)
            else str_times whale_emoji (py_round r' 100000 div 100000))
     \<and> (let r = py_round v 1000; r' = py_round r 10000; r'' = py_round r' 100000 in
          1000 dvd r \<and> 2 * \<bar>v - r\<bar> \<le> 1000
        \<and> 10000 dvd r' \<and> 2 * \<bar>r - r'\<bar> \<le> 10000
        \<and> 100000 dvd r'' \<and> 2 * \<bar>r' - r''\<bar> \<le> 100000)"
proof -
  have "1000 dvd py_round v 1000" "2 * \<bar>v - py_round v 1000\<bar> \<le> 1000"
    by (simp_all add: py_round_nearest)
  moreover have "10000 dvd py_round r 10000" "2 * \<bar>r - py_round r 10000\<bar> \<le> 10000" for r
    by (simp_all add: py_round_nearest)
  moreover have "100000 dvd py_round r 100000" "2 * \<bar>r - py_round r 100000\<bar> \<le> 100000" for r
    by (simp_all add: py_round_nearest)
  ultimately show ?thesis
    unfolding Let_def using value_to_emojis_int [of v, unfolded Let_def] by blast
qed

theorem value_to_emojis_tiers_witness:
  "value_to_emojis (of_int 4200) = str_times fish_emoji 4
   \<and> value_to_emojis (of_int 12345) = str_times shark_emoji 1
   \<and> value_to_emojis (of_int 249999) = str_times whale_emoji 2
   \<and> value_to_emojis (of_int (- 7)) = []"
proof -
  have r: "py_round 4200 1000 = 4000" "py_round 12345 1000 = 12000"
    "py_round 12000 10000 = 10000" "py_round 249999 1000 = 250000"
    "py_round 250000 10000 = 250000" "py_round 250000 100000 = 200000"
    by (simp_all add: py_round_def Let_def)
  show ?thesis
    using value_to_emojis_tiers [of 4200, THEN conjunct1]
      value_to_emojis_tiers [of 12345, THEN conjunct1]
      value_to_emojis_tiers [of 249999, THEN conjunct1]
      value_to_emojis_tiers [of "- 7", THEN conjunct1]
    by (simp add: r)
qed

text \<open>
  The claim as written gives the minimum of one symbol to positive values only, so at
  \<open>v = 0\<close> (where \<open>r = 0\<close> holds no full thousand) it describes an empty result. The
  code returns one tier-1 symbol there.
\<close>

theorem value_to_emojis_zero_counterexample:
  "str_times fish_emoji (py_round 0 1000 div 1000) = []
   \<and> value_to_emojis (of_int 0) = fish_emoji
   \<and> value_to_emojis (of_int 0) \<noteq> str_times fish_emoji (py_round 0 1000 div 1000)"
  by (simp add: value_to_emojis_def py_int_def py_round_def str_times_def str_or_def
      fish_emoji_def Let_def)

subsection \<open>Monotonicity and re-rounding\<close>

lemma magnitude_rounded_value:
  assumes "0 \<le> v"
  shows "emoji_magnitude (value_to_emojis (of_int v)) = max 1000 (rounded_value (of_int v))"
proof -
  let ?r1 = "py_round v 1000"
  let ?r2 = "py_round ?r1 10000"
  let ?r3 = "py_round ?r2 100000"
  have r1: "0 \<le> ?r1" using assms by (simp add: py_round_nonneg)
  show ?thesis
  proof (cases "?r1 < 10000")
    case True
    have "1000 * max 1 (?r1 div 1000) = max 1000 ?r1"
      using py_round_div_mult [of 1000 v] r1 by (auto simp add: max_def)
    with True assms show ?thesis
      by (simp add: value_to_emojis_int rounded_value_def py_int_of_int Let_def magnitude_fish)
  next
    case r1_big: False
    have r2: "10000 \<le> ?r2" by (rule py_round_ge) (use r1_big in simp_all)
    show ?thesis
    proof (cases "?r2 < 100000")
      case True
      have "1 \<le> ?r2 div 10000" using r2 by simp
      moreover have "10000 * (?r2 div 10000) = ?r2"
        using py_round_div_mult [of 10000 ?r1] by simp
      ultimately show ?thesis using True r1_big assms r2
        by (simp add: value_to_emojis_int rounded_value_def py_int_of_int Let_def magnitude_shark)
    next
      case r2_big: False
      have r3: "100000 \<le> ?r3" by (rule py_round_ge) (use r2_big in simp_all)
      have "1 \<le> ?r3 div 100000" using r3 by simp
      moreover have "100000 * (?r3 div 100000) = ?r3"
        using py_round_div_mult [of 100000 ?r2] by simp
      ultimately show ?thesis using r2_big r1_big assms r3
        by (simp add: value_to_emojis_int rounded_value_def py_int_of_int Let_def magnitude_whale)
    qed
  qed
qed

lemma rounded_value_mono_int:
  assumes "0 \<le> a" "a \<le> b"
  shows "rounded_value (of_int a) \<le> rounded_value (of_int b)"
proof -
  have m1: "py_round a 1000 \<le> py_round b 1000" using assms by (simp add: py_round_mono)
  then have m2: "py_round (py_round a 1000) 10000 \<le> py_round (py_round b 1000) 10000"
    by (simp add: py_round_mono)
  then have m3: "py_round (py_round (py_round a 1000) 10000) 100000
      \<le> py_round (py_round (py_round b 1000) 10000) 100000"
    by (simp add: py_round_mono)
  have g2: "10000 \<le> py_round b 1000 \<Longrightarrow> 10000 \<le> py_round (py_round b 1000) 10000"
    by (rule py_round_ge) simp_all
  have g3: "100000 \<le> py_round (py_round b 1000) 10000 \<Longrightarrow>
      100000 \<le> py_round (py_round (py_round b 1000) 10000) 100000"
    by (rule py_round_ge) simp_all
  show ?thesis
    using assms m1 m2 m3 g2 g3
    by (auto simp add: rounded_value_def py_int_of_int Let_def)
qed

lemma value_to_emojis_py_int: "value_to_emojis (of_int (py_int x)) = value_to_emojis x"
  by (simp add: value_to_emojis_def py_int_of_int)

lemma rounded_value_py_int: "rounded_value (of_int (py_int x)) = rounded_value x"
  by (simp add: rounded_value_def py_int_of_int)

text \<open>
  Claim C6. For all values \<open>0 \<le> a \<le> b\<close> the magnitude the output for \<open>a\<close> indicates
  (symbol count times the worth of the symbol) is at most the one the output for \<open>b\<close>
  indicates. Re-rounding changes nothing: the tiering applied to the value it rounded
  \<open>a\<close> to returns the same string, with the same symbol count, as the tiering applied to
  \<open>a\<close>, and rounds that value to itself.
\<close>

theorem value_to_emojis_monotone_idempotent:
  fixes a b :: real
  assumes "0 \<le> a" "a \<le> b"
  shows "emoji_magnitude (value_to_emojis a) \<le> emoji_magnitude (value_to_emojis b)
     \<and> value_to_emojis (of_int (rounded_value a)) = value_to_emojis a
     \<and> emoji_count (value_to_emojis (of_int (rounded_value a))) = emoji_count (value_to_emojis a)
     \<and> rounded_value (of_int (rounded_value a)) = rounded_value a"
proof -
  have ia: "0 \<le> py_int a" and ib: "0 \<le> py_int b" and iab: "py_int a \<le> py_int b"
    using assms by (simp_all add: py_int_def floor_mono)
  have "emoji_magnitude (value_to_emojis (of_int (py_int a)))
      \<le> emoji_magnitude (value_to_emojis (of_int (py_int b)))"
    using rounded_value_mono_int [OF ia iab] ia ib
    by (simp add: magnitude_rounded_value)
  then have mono: "emoji_magnitude (value_to_emojis a) \<le> emoji_magnitude (value_to_emojis b)"
    by (simp add: value_to_emojis_py_int)
  let ?v = "py_int a"
  let ?r1 = "py_round ?v 1000"
  let ?r2 = "py_round ?r1 10000"
  let ?r3 = "py_round ?r2 100000"
  have d1: "1000 dvd ?r1" and d2: "10000 dvd ?r2" and d3: "100000 dvd ?r3"
    by (simp_all add: py_round_nearest(1))
  have d21: "1000 dvd ?r2" using d2 by (rule dvd_trans [rotated]) simp
  have d31: "1000 dvd ?r3" using d3 by (rule dvd_trans [rotated]) simp
  have d32: "10000 dvd ?r3" using d3 by (rule dvd_trans [rotated]) simp
  have f: "py_round ?r1 1000 = ?r1" "py_round ?r2 1000 = ?r2" "py_round ?r2 10000 = ?r2"
    "py_round ?r3 1000 = ?r3" "py_round ?r3 10000 = ?r3" "py_round ?r3 100000 = ?r3"
    using d1 d2 d3 d21 d31 d32 by (simp_all add: py_round_fixed)
  have r1: "0 \<le> ?r1" using ia by (simp add: py_round_nonneg)
  have g2: "10000 \<le> ?r1 \<Longrightarrow> 10000 \<le> ?r2" by (rule py_round_ge) simp_all
  have g3: "100000 \<le> ?r2 \<Longrightarrow> 100000 \<le> ?r3" by (rule py_round_ge) simp_all
  have rv: "rounded_value a = (if ?r1 < 10000 then ?r1 else if ?r2 < 100000 then ?r2 else ?r3)"
    using ia by (simp add: rounded_value_def Let_def)
  have same: "value_to_emojis (of_int (rounded_value a)) = value_to_emojis a"
    using ia r1 g2 g3 f
    by (auto simp add: rv value_to_emojis_def [of a] value_to_emojis_def [of "of_int x" for x]
        py_int_of_int Let_def)
  have fixed: "rounded_value (of_int (rounded_value a)) = rounded_value a"
    using ia r1 g2 g3 f
    by (auto simp add: rv rounded_value_def [of "of_int x" for x] py_int_of_int Let_def)
  from mono same fixed show ?thesis by simp
qed

theorem value_to_emojis_monotone_idempotent_witness:
  "(0::real) \<le> 9400 \<and> (9400::real) \<le> 9600
   \<and> emoji_magnitude (value_to_emojis 9400) = 9000
   \<and> emoji_magnitude (value_to_emojis 9600) = 10000
   \<and> emoji_magnitude (value_to_emojis 9400) \<le> emoji_magnitude (value_to_emojis 9600)
   \<and> rounded_value 9400 = 9000
   \<and> value_to_emojis (of_int (rounded_value 9400)) = value_to_emojis 9400"
proof -
  have m1: "emoji_magnitude (value_to_emojis 9400) = 9000"
    by (simp add: value_to_emojis_def py_int_def py_round_def str_times_def str_or_def
        emoji_magnitude_def emoji_count_def fish_emoji_def shark_emoji_def Let_def
        eval_nat_numeral)
  have m2: "emoji_magnitude (value_to_emojis 9600) = 10000"
    by (simp add: value_to_emojis_def py_int_def py_round_def str_times_def str_or_def
        emoji_magnitude_def emoji_count_def fish_emoji_def shark_emoji_def Let_def)
  have rv: "rounded_value 9400 = 9000"
    by (simp add: rounded_value_def py_int_def py_round_def Let_def)
  have hyp: "(0::real) \<le> 9400" "(9400::real) \<le> 9600" by simp_all
  from value_to_emojis_monotone_idempotent [OF hyp]
  have "value_to_emojis (of_int (rounded_value 9400)) = value_to_emojis 9400"
    and "emoji_magnitude (value_to_emojis 9400) \<le> emoji_magnitude (value_to_emojis 9600)"
    by blast+
  with m1 m2 rv hyp show ?thesis by blast
qed

subsection \<open>Rounding to a float\<close>

lemma round_half_even_int: "round_half_even (of_int n) = n"
  by (simp add: round_half_even_def)

lemma round_half_even_near: "\<bar>of_int (round_half_even m) - m\<bar> \<le> 1 / 2"
  unfolding round_half_even_def Let_def
  by (auto; linarith)

lemma find_exponent_binade:
  assumes "2 powi k \<le> \<bar>x\<bar>" "\<bar>x\<bar> < 2 powi (k + 1)"
  shows "k - 52 \<le> e + int n \<Longrightarrow> find_exponent n e x = max e (k - 52)"
proof (induction n arbitrary: e)
  case 0
  then show ?case by simp
next
  case (Suc n)
  show ?case
  proof (cases "\<bar>x\<bar> < 2 powi (e + 53)")
    case True
    have "k < e + 53"
    proof (rule ccontr)
      assume "\<not> k < e + 53"
      then have "(2::real) powi (e + 53) \<le> 2 powi k"
        by (intro power_int_increasing) simp_all
      with assms(1) True show False by linarith
    qed
    with True show ?thesis by simp
  next
    case False
    have "e + 53 \<le> k"
    proof (rule ccontr)
      assume "\<not> e + 53 \<le> k"
      then have "(2::real) powi (k + 1) \<le> 2 powi (e + 53)"
        by (intro power_int_increasing) simp_all
      with assms(2) False show False by linarith
    qed
    with False Suc.prems Suc.IH [of "e + 1"] show ?thesis by simp
  qed
qed

lemma double_exponent_binade:
  assumes "2 powi k \<le> \<bar>x\<bar>" "\<bar>x\<bar> < 2 powi (k + 1)" "k < 1024"
  shows "double_exponent x = max (- 1074) (k - 52)"
  unfolding double_exponent_def
  using find_exponent_binade [OF assms(1,2), of "- 1074" 2045] assms(3) by simp

lemma binade_exists:
  fixes x :: real
  assumes "x \<noteq> 0"
  shows "\<exists>k. 2 powi k \<le> \<bar>x\<bar> \<and> \<bar>x\<bar> < 2 powi (k + 1)"
proof -
  let ?k = "\<lfloor>log 2 \<bar>x\<bar>\<rfloor>"
  from assms have pos: "0 < \<bar>x\<bar>" by simp
  have "2 powr (of_int ?k) \<le> \<bar>x\<bar>"
    using le_log_iff [of 2 "\<bar>x\<bar>" "of_int ?k"] pos by simp
  moreover have "log 2 \<bar>x\<bar> < of_int (?k + 1)" by linarith
  then have "\<bar>x\<bar> < 2 powr (of_int (?k + 1))"
    using log_less_iff [of 2 "\<bar>x\<bar>" "of_int (?k + 1)"] pos by fastforce
  moreover have "(2::real) powr (of_int j) = 2 powi j" for j
    by (simp add: powr_real_of_int')
  ultimately have "2 powi ?k \<le> \<bar>x\<bar> \<and> \<bar>x\<bar> < 2 powi (?k + 1)"
    by (simp only:)
  then show ?thesis ..
qed

lemma round_double_binade:
  assumes "2 powi k \<le> \<bar>x\<bar>" "\<bar>x\<bar> < 2 powi (k + 1)" "- 1022 \<le> k" "k < 1024"
  shows "round_double x = of_int (round_half_even (x / 2 powi (k - 52))) * 2 powi (k - 52)"
  using double_exponent_binade [OF assms(1,2,4)] assms(3)
  by (simp add: round_double_def max_def)

lemma round_double_zero: "round_double 0 = 0"
  by (simp add: round_double_def round_half_even_def)

lemma normal_binade:
  assumes "normal_range x"
  shows "\<exists>k. 2 powi k \<le> \<bar>x\<bar> \<and> \<bar>x\<bar> < 2 powi (k + 1) \<and> - 1022 \<le> k \<and> k < 1024"
proof -
  from assms have nz: "x \<noteq> 0" and lo: "2 powi (- 1022) \<le> \<bar>x\<bar>" and hi: "\<bar>x\<bar> < 2 powi 1024"
    by (auto simp add: normal_range_def)
  from binade_exists [OF nz] obtain k where k: "2 powi k \<le> \<bar>x\<bar>" "\<bar>x\<bar> < 2 powi (k + 1)"
    by blast
  have "- 1022 \<le> k"
  proof (rule ccontr)
    assume "\<not> - 1022 \<le> k"
    then have "(2::real) powi (k + 1) \<le> 2 powi (- 1022)"
      by (intro power_int_increasing) simp_all
    with k(2) lo show False by linarith
  qed
  moreover have "k < 1024"
  proof (rule ccontr)
    assume "\<not> k < 1024"
    then have "(2::real) powi 1024 \<le> 2 powi k"
      by (intro power_int_increasing) simp_all
    with k(1) hi show False by linarith
  qed
  ultimately show ?thesis using k by blast
qed

lemma round_double_error:
  assumes "normal_range x"
  shows "\<bar>round_double x - x\<bar> \<le> 2 powi (- 53) * \<bar>x\<bar>"
proof -
  from normal_binade [OF assms] obtain k where
    k: "2 powi k \<le> \<bar>x\<bar>" "\<bar>x\<bar> < 2 powi (k + 1)" "- 1022 \<le> k" "k < 1024" by blast
  let ?u = "(2::real) powi (k - 52)"
  let ?m = "x / ?u"
  have u: "0 < ?u" by simp
  have x: "x = ?m * ?u" by simp
  have "round_double x - x = (of_int (round_half_even ?m) - ?m) * ?u"
    unfolding round_double_binade [OF k] by (simp add: algebra_simps)
  then have "\<bar>round_double x - x\<bar> = \<bar>of_int (round_half_even ?m) - ?m\<bar> * ?u"
    by (simp add: abs_mult)
  also have "\<dots> \<le> 1 / 2 * ?u"
    using round_half_even_near [of ?m] u by (intro mult_right_mono) simp_all
  also have "\<dots> = 2 powi (- 53) * 2 powi k"
    by (simp add: power_int_diff power_int_minus)
  also have "\<dots> \<le> 2 powi (- 53) * \<bar>x\<bar>"
    using k(1) by (intro mult_left_mono) simp_all
  finally show ?thesis .
qed

lemma round_double_double:
  assumes "normal_range x" "normal_range (2 * x)"
  shows "round_double (2 * x) = 2 * round_double x"
proof -
  from normal_binade [OF assms(1)] obtain k where
    k: "2 powi k \<le> \<bar>x\<bar>" "\<bar>x\<bar> < 2 powi (k + 1)" "- 1022 \<le> k" "k < 1024" by blast
  have k2: "2 powi (k + 1) \<le> \<bar>2 * x\<bar>" "\<bar>2 * x\<bar> < 2 powi (k + 1 + 1)"
    using k(1,2) by (simp_all add: power_int_add)
  have "k + 1 < 1024"
  proof (rule ccontr)
    assume "\<not> k + 1 < 1024"
    then have "(2::real) powi 1024 \<le> 2 powi (k + 1)"
      by (intro power_int_increasing) simp_all
    with k2(1) assms(2) show False by (simp add: normal_range_def)
  qed
  with k(3) have r: "- 1022 \<le> k + 1" "k + 1 < 1024" by simp_all
  have "(2 * x) / 2 powi (k + 1 - 52) = x / 2 powi (k - 52)"
    by (simp add: power_int_diff power_int_add)
  moreover have "(2::real) powi (k + 1 - 52) = 2 * 2 powi (k - 52)"
    by (simp add: power_int_diff power_int_add)
  ultimately show ?thesis
    unfolding round_double_binade [OF k2 r] round_double_binade [OF k]
    by simp
qed

lemma round_double_nonzero:
  assumes "normal_range x"
  shows "round_double x \<noteq> 0"
proof
  assume "round_double x = 0"
  with round_double_error [OF assms] have "\<bar>x\<bar> \<le> 2 powi (- 53) * \<bar>x\<bar>" by simp
  moreover have "(2::real) powi (- 53) < 1"
    by (simp add: power_int_minus)
  moreover from assms have "0 < \<bar>x\<bar>" by (auto simp add: normal_range_def)
  ultimately show False
    by (smt (verit) mult_less_cancel_right2)
qed

lemma round_double_representable:
  assumes "\<bar>m\<bar> < 2 ^ 53" "- 1074 \<le> e" "e \<le> 971"
  shows "round_double (of_int m * 2 powi e) = of_int m * 2 powi e"
proof (cases "m = 0")
  case True
  then show ?thesis by (simp add: round_double_zero)
next
  case False
  let ?x = "of_int m * (2::real) powi e"
  have nz: "?x \<noteq> 0" using False by simp
  from binade_exists [OF nz] obtain k where k: "2 powi k \<le> \<bar>?x\<bar>" "\<bar>?x\<bar> < 2 powi (k + 1)"
    by blast
  have "\<bar>?x\<bar> = of_int \<bar>m\<bar> * 2 powi e" by (simp add: abs_mult)
  also have "\<dots> < 2 ^ 53 * 2 powi e"
    using assms(1) by (intro mult_strict_right_mono) (simp_all flip: of_int_less_iff)
  also have "\<dots> = 2 powi (53 + e)" by (simp add: power_int_add)
  finally have upper: "\<bar>?x\<bar> < 2 powi (53 + e)" .
  have ke: "k < 53 + e"
  proof (rule ccontr)
    assume "\<not> k < 53 + e"
    then have "(2::real) powi (53 + e) \<le> 2 powi k"
      by (intro power_int_increasing) simp_all
    with k(1) upper show False by linarith
  qed
  with assms(3) have "k < 1024" by simp
  from double_exponent_binade [OF k this]
  have E: "double_exponent ?x = max (- 1074) (k - 52)" .
  define E where "E = max (- 1074) (k - 52)"
  have le: "E \<le> e" using ke assms(2) by (simp add: E_def)
  have "?x / 2 powi E = of_int m * 2 powi (e - E)"
    by (simp add: power_int_diff)
  also have "\<dots> = of_int (m * 2 ^ nat (e - E))"
    using le by (simp add: power_int_def)
  finally have "round_half_even (?x / 2 powi E) = m * 2 ^ nat (e - E)"
    by (simp only: round_half_even_int)
  then have "round_double ?x = of_int (m * 2 ^ nat (e - E)) * 2 powi E"
    unfolding round_double_def E E_def [symmetric] by simp
  also have "\<dots> = of_int m * (2 powi (e - E) * 2 powi E)"
    using le by (simp add: power_int_def)
  also have "\<dots> = ?x"
    by (simp flip: power_int_add)
  finally show ?thesis .
qed

lemma round_double_int:
  assumes "\<bar>m\<bar> < 2 ^ 53"
  shows "round_double (of_int m) = of_int m"
  using round_double_representable [OF assms, of 0] by simp

lemma round_double_half: "round_double (1 / 2) = 1 / 2"
  using round_double_representable [of 1 "- 1"] by (simp add: power_int_minus)

lemma double_exponent_tiny:
  assumes "\<bar>x\<bar> < 2 powi (- 1021)"
  shows "double_exponent x = - 1074"
proof -
  have "(2045::nat) = Suc 2044" by simp
  with assms show ?thesis
    unfolding double_exponent_def by (simp only: find_exponent.simps) simp
qed

lemma round_double_tiny:
  assumes "\<bar>x\<bar> < 2 powi (- 1021)"
  shows "round_double x = of_int (round_half_even (x / 2 powi (- 1074))) * 2 powi (- 1074)"
  by (simp only: round_double_def double_exponent_tiny [OF assms])

subsection \<open>LP tokens and the assets behind them\<close>

lemma lp_eq_values_explicit:
  "lp_eq_values lp (Some t) (Some e) (Some b) None =
     (if t = 0 then Inl ZeroDivisionError
      else Inr (round_double (lp * round_double (e / t)),
                round_double (lp * round_double (b / t))))"
  by (simp add: lp_eq_values_def py_div_def float_mul_def Let_def)

lemma lp_eq_values_client:
  "lp_eq_values lp total_lp pooled_eth pooled_beans (Some client) =
     lp_eq_values lp (Some (lp_supply (current_season_stats client)))
       (Some (pooledEth (current_season_stats client)))
       (Some (pooledBeans (current_season_stats client))) None"
  by (simp add: lp_eq_values_def Let_def)

lemma lp_eq_values_ValueError:
  "lp_eq_values lp total_lp pooled_eth pooled_beans client = Inl ValueError
     \<longleftrightarrow> client = None \<and> (total_lp = None \<or> pooled_eth = None \<or> pooled_beans = None)"
  by (cases client; cases total_lp; cases pooled_eth; cases pooled_beans)
     (simp_all add: lp_eq_values_def py_div_def Let_def)

lemma asset_error:
  assumes "normal_range q" "normal_range (lp * round_double q)"
  shows "\<bar>round_double (lp * round_double q) - lp * q\<bar> \<le> (2 powi (- 52) + 2 powi (- 106)) * \<bar>lp * q\<bar>"
proof -
  define u :: real where "u = 2 powi (- 53)"
  define q' where "q' = round_double q"
  have u: "0 \<le> u" by (simp add: u_def)
  have eps: "(2 powi (- 52) + 2 powi (- 106)) = 2 * u + u * u"
    by (simp add: u_def power_int_minus)
  have q: "\<bar>q' - q\<bar> \<le> u * \<bar>q\<bar>"
    unfolding q'_def u_def using assms(1) by (rule round_double_error)
  have p: "\<bar>round_double (lp * q') - lp * q'\<bar> \<le> u * \<bar>lp * q'\<bar>"
    unfolding q'_def u_def using assms(2) by (rule round_double_error)
  have "\<bar>q'\<bar> \<le> \<bar>q\<bar> + u * \<bar>q\<bar>"
    using q by linarith
  then have "\<bar>lp\<bar> * \<bar>q'\<bar> \<le> \<bar>lp\<bar> * (\<bar>q\<bar> + u * \<bar>q\<bar>)"
    by (intro mult_left_mono) simp_all
  then have "u * \<bar>lp * q'\<bar> \<le> u * (\<bar>lp\<bar> * (\<bar>q\<bar> + u * \<bar>q\<bar>))"
    using u by (intro mult_left_mono) (simp_all add: abs_mult)
  also have "\<dots> = (u + u * u) * \<bar>lp * q\<bar>"
    by (simp add: abs_mult algebra_simps)
  finally have first: "\<bar>round_double (lp * q') - lp * q'\<bar> \<le> (u + u * u) * \<bar>lp * q\<bar>"
    using p by linarith
  have "\<bar>lp * q' - lp * q\<bar> = \<bar>lp\<bar> * \<bar>q' - q\<bar>"
    by (simp add: abs_mult flip: right_diff_distrib)
  also have "\<dots> \<le> \<bar>lp\<bar> * (u * \<bar>q\<bar>)"
    using q by (intro mult_left_mono) simp_all
  also have "\<dots> = u * \<bar>lp * q\<bar>"
    by (simp add: abs_mult)
  finally have second: "\<bar>lp * q' - lp * q\<bar> \<le> u * \<bar>lp * q\<bar>" .
  have "\<bar>round_double (lp * q') - lp * q\<bar>
      \<le> \<bar>round_double (lp * q') - lp * q'\<bar> + \<bar>lp * q' - lp * q\<bar>"
    by linarith
  also have "\<dots> \<le> (u + u * u) * \<bar>lp * q\<bar> + u * \<bar>lp * q\<bar>"
    using first second by linarith
  also have "\<dots> = (2 * u + u * u) * \<bar>lp * q\<bar>"
    by (simp add: algebra_simps)
  finally show ?thesis
    unfolding q'_def eps .
qed

lemma asset_double:
  assumes "normal_range (lp * q)" "normal_range (2 * lp * q)"
  shows "round_double (2 * lp * q) = 2 * round_double (lp * q)"
    and "py_div (round_double (lp * q)) (2 * round_double (lp * q)) = Inr (1 / 2)"
proof -
  from assms(2) have "normal_range (2 * (lp * q))" by (simp add: mult.assoc)
  from round_double_double [OF assms(1) this]
  show "round_double (2 * lp * q) = 2 * round_double (lp * q)"
    by (simp add: mult.assoc)
  from round_double_nonzero [OF assms(1)]
  show "py_div (round_double (lp * q)) (2 * round_double (lp * q)) = Inr (1 / 2)"
    by (simp add: py_div_def round_double_half)
qed

text \<open>
  Claim C4, as the code has it. \<^verbatim>\<open>lp_eq_values\<close> raises \<^verbatim>\<open>ValueError\<close> exactly when no
  stats client is given and one of the three reserves is missing; a client's reserves
  replace the arguments. With reserves \<open>t\<close> (total LP), \<open>e\<close> (pooled ETH) and \<open>b\<close> (pooled
  Beans) and \<open>t \<noteq> 0\<close>, it returns the floats \<open>lp * (e / t)\<close> and \<open>lp * (b / t)\<close>, where the
  quotient is rounded to a float and then the product is. When the quotient and the
  product are in the range of the normal floats, the result differs from the exact
  proportional amount \<open>lp * e / t\<close> by at most \<open>2^-52 + 2^-106\<close> of it. When the product
  for \<open>lp\<close> and the product for \<open>2 * lp\<close> are in that range, the result for \<open>2 * lp\<close> is
  exactly twice the result for \<open>lp\<close>, and the float quotient of the result for \<open>lp\<close>
  by the result for \<open>2 * lp\<close> is one half.
\<close>

theorem lp_eq_values_proportional:
  "(lp_eq_values lp total_lp pooled_eth pooled_beans client = Inl ValueError
      \<longleftrightarrow> client = None \<and> (total_lp = None \<or> pooled_eth = None \<or> pooled_beans = None))
   \<and> lp_eq_values lp total_lp pooled_eth pooled_beans (Some c) =
       lp_eq_values lp (Some (lp_supply (current_season_stats c)))
         (Some (pooledEth (current_season_stats c)))
         (Some (pooledBeans (current_season_stats c))) None
   \<and> (t \<noteq> 0 \<longrightarrow>
        lp_eq_values lp (Some t) (Some e) (Some b) None =
          Inr (round_double (lp * round_double (e / t)),
               round_double (lp * round_double (b / t))))
   \<and> (t \<noteq> 0 \<and> normal_range (e / t) \<and> normal_range (lp * round_double (e / t)) \<longrightarrow>
        (\<exists>e1 b1. lp_eq_values lp (Some t) (Some e) (Some b) None = Inr (e1, b1)
           \<and> \<bar>e1 - lp * e / t\<bar> \<le> (2 powi (- 52) + 2 powi (- 106)) * \<bar>lp * e / t\<bar>))
   \<and> (t \<noteq> 0 \<and> normal_range (b / t) \<and> normal_range (lp * round_double (b / t)) \<longrightarrow>
        (\<exists>e1 b1. lp_eq_values lp (Some t) (Some e) (Some b) None = Inr (e1, b1)
           \<and> \<bar>b1 - lp * b / t\<bar> \<le> (2 powi (- 52) + 2 powi (- 106)) * \<bar>lp * b / t\<bar>))
   \<and> (t \<noteq> 0 \<and> normal_range (lp * round_double (e / t))
        \<and> normal_range (2 * lp * round_double (e / t)) \<longrightarrow>
        (\<exists>e1 b1 b2. lp_eq_values lp (Some t) (Some e) (Some b) None = Inr (e1, b1)
           \<and> lp_eq_values (2 * lp) (Some t) (Some e) (Some b) None = Inr (2 * e1, b2)
           \<and> py_div e1 (2 * e1) = Inr (1 / 2)))
   \<and> (t \<noteq> 0 \<and> normal_range (lp * round_double (b / t))
        \<and> normal_range (2 * lp * round_double (b / t)) \<longrightarrow>
        (\<exists>e1 b1 e2. lp_eq_values lp (Some t) (Some e) (Some b) None = Inr (e1, b1)
           \<and> lp_eq_values (2 * lp) (Some t) (Some e) (Some b) None = Inr (e2, 2 * b1)
           \<and> py_div b1 (2 * b1) = Inr (1 / 2)))"
proof (intro conjI impI)
  show "lp_eq_values lp total_lp pooled_eth pooled_beans client = Inl ValueError
      \<longleftrightarrow> client = None \<and> (total_lp = None \<or> pooled_eth = None \<or> pooled_beans = None)"
    by (rule lp_eq_values_ValueError)
next
  show "lp_eq_values lp total_lp pooled_eth pooled_beans (Some c) =
       lp_eq_values lp (Some (lp_supply (current_season_stats c)))
         (Some (pooledEth (current_season_stats c)))
         (Some (pooledBeans (current_season_stats c))) None"
    by (rule lp_eq_values_client)
next
  assume "t \<noteq> 0"
  then show "lp_eq_values lp (Some t) (Some e) (Some b) None =
      Inr (round_double (lp * round_double (e / t)), round_double (lp * round_double (b / t)))"
    by (simp add: lp_eq_values_explicit)
next
  assume a: "t \<noteq> 0 \<and> normal_range (e / t) \<and> normal_range (lp * round_double (e / t))"
  then have "\<bar>round_double (lp * round_double (e / t)) - lp * (e / t)\<bar>
      \<le> (2 powi (- 52) + 2 powi (- 106)) * \<bar>lp * (e / t)\<bar>"
    by (intro asset_error) simp_all
  with a show "\<exists>e1 b1. lp_eq_values lp (Some t) (Some e) (Some b) None = Inr (e1, b1)
      \<and> \<bar>e1 - lp * e / t\<bar> \<le> (2 powi (- 52) + 2 powi (- 106)) * \<bar>lp * e / t\<bar>"
    by (simp add: lp_eq_values_explicit)
next
  assume a: "t \<noteq> 0 \<and> normal_range (b / t) \<and> normal_range (lp * round_double (b / t))"
  then have "\<bar>round_double (lp * round_double (b / t)) - lp * (b / t)\<bar>
      \<le> (2 powi (- 52) + 2 powi (- 106)) * \<bar>lp * (b / t)\<bar>"
    by (intro asset_error) simp_all
  with a show "\<exists>e1 b1. lp_eq_values lp (Some t) (Some e) (Some b) None = Inr (e1, b1)
      \<and> \<bar>b1 - lp * b / t\<bar> \<le> (2 powi (- 52) + 2 powi (- 106)) * \<bar>lp * b / t\<bar>"
    by (simp add: lp_eq_values_explicit)
next
  assume a: "t \<noteq> 0 \<and> normal_range (lp * round_double (e / t))
      \<and> normal_range (2 * lp * round_double (e / t))"
  then have n: "normal_range (lp * round_double (e / t))"
    "normal_range (2 * lp * round_double (e / t))" by simp_all
  from a asset_double [OF n]
  show "\<exists>e1 b1 b2. lp_eq_values lp (Some t) (Some e) (Some b) None = Inr (e1, b1)
      \<and> lp_eq_values (2 * lp) (Some t) (Some e) (Some b) None = Inr (2 * e1, b2)
      \<and> py_div e1 (2 * e1) = Inr (1 / 2)"
    by (simp add: lp_eq_values_explicit)
next
  assume a: "t \<noteq> 0 \<and> normal_range (lp * round_double (b / t))
      \<and> normal_range (2 * lp * round_double (b / t))"
  then have n: "normal_range (lp * round_double (b / t))"
    "normal_range (2 * lp * round_double (b / t))" by simp_all
  from a asset_double [OF n]
  show "\<exists>e1 b1 e2. lp_eq_values lp (Some t) (Some e) (Some b) None = Inr (e1, b1)
      \<and> lp_eq_values (2 * lp) (Some t) (Some e) (Some b) None = Inr (e2, 2 * b1)
      \<and> py_div b1 (2 * b1) = Inr (1 / 2)"
    by (simp add: lp_eq_values_explicit)
qed

theorem lp_eq_values_proportional_witness:
  "(100::real) \<noteq> 0
   \<and> normal_range (50 / 100) \<and> normal_range (10 * round_double (50 / 100))
   \<and> normal_range (2 * 10 * round_double (50 / 100))
   \<and> normal_range (200 / 100) \<and> normal_range (10 * round_double (200 / 100))
   \<and> normal_range (2 * 10 * round_double (200 / 100))
   \<and> lp_eq_values 10 (Some 100) (Some 50) (Some 200) None = Inr (5, 20)
   \<and> lp_eq_values (2 * 10) (Some 100) (Some 50) (Some 200) None = Inr (10, 40)
   \<and> py_div 5 (2 * 5) = Inr (1 / 2) \<and> py_div 20 (2 * 20) = Inr (1 / 2)
   \<and> lp_eq_values 10 (Some 100) None (Some 200)
        (Some \<lparr>current_season_stats = \<lparr>pooledEth = 50, pooledBeans = 200, lp_supply = 100\<rparr>\<rparr>)
      = Inr (5, 20)
   \<and> lp_eq_values 10 (Some 100) None (Some 200) None = Inl ValueError"
proof -
  have fixed: "round_double (1 / 2) = 1 / 2" "round_double 2 = 2" "round_double 5 = 5"
    "round_double 20 = 20"
    using round_double_half round_double_int [of 2] round_double_int [of 5]
      round_double_int [of 20]
    by simp_all
  have range: "normal_range (50 / 100)" "normal_range (10 * round_double (50 / 100))"
    "normal_range (2 * 10 * round_double (50 / 100))"
    "normal_range (200 / 100)" "normal_range (10 * round_double (200 / 100))"
    "normal_range (2 * 10 * round_double (200 / 100))"
    by (simp_all add: fixed) (simp_all add: normal_range_def power_int_minus)
  note inst = lp_eq_values_proportional [of 10 "Some 100" None "Some 200" None
      "\<lparr>current_season_stats = \<lparr>pooledEth = 50, pooledBeans = 200, lp_supply = 100\<rparr>\<rparr>"
      100 50 200]
  from inst have one: "lp_eq_values 10 (Some 100) (Some 50) (Some 200) None = Inr (5, 20)"
    by (simp add: fixed)
  from inst range(2,3) one
  have "\<exists>b2. lp_eq_values (2 * 10) (Some 100) (Some 50) (Some 200) None = Inr (2 * 5, b2)
      \<and> py_div 5 (2 * 5) = Inr (1 / 2)"
    by auto
  moreover from inst range(5,6) one
  have "\<exists>e2. lp_eq_values (2 * 10) (Some 100) (Some 50) (Some 200) None = Inr (e2, 2 * 20)
      \<and> py_div 20 (2 * 20) = Inr (1 / 2)"
    by auto
  ultimately have doubled:
    "lp_eq_values (2 * 10) (Some 100) (Some 50) (Some 200) None = Inr (10, 40)"
    "py_div 5 (2 * 5) = Inr (1 / 2)" "py_div 20 (2 * 20) = Inr (1 / 2)"
    by auto
  from inst one
  have client: "lp_eq_values 10 (Some 100) None (Some 200)
        (Some \<lparr>current_season_stats = \<lparr>pooledEth = 50, pooledBeans = 200, lp_supply = 100\<rparr>\<rparr>)
      = Inr (5, 20)"
    by simp
  from inst have missing: "lp_eq_values 10 (Some 100) None (Some 200) None = Inl ValueError"
    by simp
  from range one doubled client missing show ?thesis
    by simp
qed

text \<open>
  The claim as written says that the result is exactly the proportional amount, and
  that the quotient is one half for positive reserves. With an LP amount of 3, a total
  of 10 and reserves of 1, the quotient \<open>1 / 10\<close> is rounded up, the product \<open>3 * 0.1\<close>
  falls half way between two floats and is rounded up again: the result is
  0.30000000000000004, which is neither \<open>3 * 1 / 10\<close> nor the float nearest to it. With
  an LP amount of zero both results are zero and their quotient raises
  \<^verbatim>\<open>ZeroDivisionError\<close>. With the smallest positive float as the LP amount, a total of
  2 and reserves of 3, the result for \<open>lp\<close> is two and the result for \<open>2 * lp\<close> is three
  of the smallest float, and the quotient is the float nearest to two thirds.
\<close>

theorem lp_eq_values_proportional_counterexample:
  "lp_eq_values 3 (Some 10) (Some 1) (Some 1) None
     = Inr (5404319552844596 / 2 ^ 54, 5404319552844596 / 2 ^ 54)
   \<and> (5404319552844596 / 2 ^ 54 :: real) \<noteq> 3 * 1 / 10
   \<and> round_double (3 * 1 / 10) = 5404319552844595 / 2 ^ 54
   \<and> lp_eq_values 0 (Some 10) (Some 1) (Some 1) None = Inr (0, 0)
   \<and> lp_eq_values (2 * 0) (Some 10) (Some 1) (Some 1) None = Inr (0, 0)
   \<and> py_div 0 0 = Inl ZeroDivisionError
   \<and> lp_eq_values (2 powi (- 1074)) (Some 2) (Some 3) (Some 3) None
     = Inr (2 * 2 powi (- 1074), 2 * 2 powi (- 1074))
   \<and> lp_eq_values (2 * 2 powi (- 1074)) (Some 2) (Some 3) (Some 3) None
     = Inr (3 * 2 powi (- 1074), 3 * 2 powi (- 1074))
   \<and> py_div (2 * 2 powi (- 1074)) (3 * 2 powi (- 1074)) = Inr (6004799503160661 / 2 ^ 53)
   \<and> (6004799503160661 / 2 ^ 53 :: real) \<noteq> 1 / 2"
proof -
  have tenth: "round_double (1 / 10) = 7205759403792794 / 2 ^ 56"
  proof -
    have "round_half_even ((1 / 10) / 2 powi (- 4 - 52)) = 7205759403792794"
      by (simp add: power_int_minus round_half_even_def Let_def)
    with round_double_binade [of "- 4" "1 / 10"] show ?thesis
      by (simp add: power_int_minus)
  qed
  have product: "round_double (3 * (7205759403792794 / 2 ^ 56)) = 5404319552844596 / 2 ^ 54"
  proof -
    have "round_half_even (3 * (7205759403792794 / 2 ^ 56) / 2 powi (- 2 - 52))
        = 5404319552844596"
      by (simp add: power_int_minus round_half_even_def Let_def)
    with round_double_binade [of "- 2" "3 * (7205759403792794 / 2 ^ 56)"] show ?thesis
      by (simp add: power_int_minus)
  qed
  have nearest: "round_double (3 * 1 / 10) = 5404319552844595 / 2 ^ 54"
  proof -
    have "round_half_even (3 * 1 / 10 / 2 powi (- 2 - 52)) = 5404319552844595"
      by (simp add: power_int_minus round_half_even_def Let_def)
    with round_double_binade [of "- 2" "3 * 1 / 10"] show ?thesis
      by (simp add: power_int_minus)
  qed
  have inexact: "lp_eq_values 3 (Some 10) (Some 1) (Some 1) None
      = Inr (5404319552844596 / 2 ^ 54, 5404319552844596 / 2 ^ 54)"
    by (simp only: lp_eq_values_explicit tenth product) simp
  have zero: "lp_eq_values 0 (Some 10) (Some 1) (Some 1) None = Inr (0, 0)"
    "lp_eq_values (2 * 0) (Some 10) (Some 1) (Some 1) None = Inr (0, 0)"
    by (simp_all add: lp_eq_values_explicit round_double_zero)
  have ratio: "round_double (3 / 2) = 3 / 2"
    using round_double_representable [of 3 "- 1"] by (simp add: power_int_minus)
  define s :: real where "s = 2 powi (- 1074)"
  have s: "0 < s" by (simp add: s_def)
  have tiny: "\<bar>s * (3 / 2)\<bar> < 2 powi (- 1021)" "\<bar>2 * s * (3 / 2)\<bar> < 2 powi (- 1021)"
    by (simp_all add: s_def power_int_minus)
  have nz: "s \<noteq> 0" using s by simp
  have halves: "round_half_even (s * (3 / 2) / s) = 2"
    "round_half_even (2 * s * (3 / 2) / s) = 3"
    by (simp_all add: nz round_half_even_def Let_def)
  have small: "round_double (s * (3 / 2)) = 2 * s" "round_double (2 * s * (3 / 2)) = 3 * s"
    using round_double_tiny [OF tiny(1)] round_double_tiny [OF tiny(2)] halves
    by (simp_all add: s_def)
  have subnormal: "lp_eq_values s (Some 2) (Some 3) (Some 3) None = Inr (2 * s, 2 * s)"
    "lp_eq_values (2 * s) (Some 2) (Some 3) (Some 3) None = Inr (3 * s, 3 * s)"
    by (simp_all only: lp_eq_values_explicit ratio small) simp_all
  have thirds: "round_double (2 / 3) = 6004799503160661 / 2 ^ 53"
  proof -
    have "round_half_even (2 / 3 / 2 powi (- 1 - 52)) = 6004799503160661"
      by (simp add: power_int_minus round_half_even_def Let_def)
    with round_double_binade [of "- 1" "2 / 3"] show ?thesis
      by (simp add: power_int_minus)
  qed
  have "2 * s / (3 * s) = 2 / 3" using s by simp
  then have quotient: "py_div (2 * s) (3 * s) = Inr (6004799503160661 / 2 ^ 53)"
    using s by (simp add: py_div_def thirds)
  have "py_div 0 0 = Inl ZeroDivisionError"
    by (simp add: py_div_def)
  with inexact nearest zero subnormal quotient show ?thesis
    unfolding s_def by simp
qed

text \<open>
  Claim C10. \<^verbatim>\<open>lp_eq_values\<close> checks that its reserves are present, not what they are:
  with all three given and a total LP supply of zero it raises \<^verbatim>\<open>ZeroDivisionError\<close>,
  not \<^verbatim>\<open>ValueError\<close>, and the same holds for a stats client that reports a supply of
  zero. It returns a result exactly when the reserves are present (given, or read from
  the client) and the total LP supply is not zero.
\<close>

theorem lp_eq_values_zero_supply:
  "lp_eq_values lp (Some 0) (Some e) (Some b) None = Inl ZeroDivisionError
   \<and> lp_eq_values lp (Some 0) (Some e) (Some b) None \<noteq> Inl ValueError
   \<and> ((\<exists>r. lp_eq_values lp (Some t) (Some e) (Some b) None = Inr r) \<longleftrightarrow> t \<noteq> 0)
   \<and> ((\<exists>r. lp_eq_values lp total_lp pooled_eth pooled_beans (Some c) = Inr r)
        \<longleftrightarrow> lp_supply (current_season_stats c) \<noteq> 0)
   \<and> ((\<exists>r. lp_eq_values lp total_lp pooled_eth pooled_beans None = Inr r)
        \<longleftrightarrow> (\<exists>t' e' b'. total_lp = Some t' \<and> pooled_eth = Some e' \<and> pooled_beans = Some b'
              \<and> t' \<noteq> 0))"
proof -
  have "(\<exists>r. lp_eq_values lp total_lp pooled_eth pooled_beans None = Inr r)
        \<longleftrightarrow> (\<exists>t' e' b'. total_lp = Some t' \<and> pooled_eth = Some e' \<and> pooled_beans = Some b'
              \<and> t' \<noteq> 0)"
    by (cases total_lp; cases pooled_eth; cases pooled_beans)
       (simp_all add: lp_eq_values_def py_div_def)
  then show ?thesis
    by (simp add: lp_eq_values_client lp_eq_values_explicit)
qed

theorem lp_eq_values_zero_supply_witness:
  "lp_eq_values 10 (Some 0) (Some 50) (Some 200) None = Inl ZeroDivisionError
   \<and> (\<exists>r. lp_eq_values 10 (Some 100) (Some 50) (Some 200) None = Inr r)"
  using lp_eq_values_zero_supply [of 10 50 200 100 "Some 100" "Some 50" "Some 200"]
  by simp

section \<open>Properties of the protocol monitor\<close>

subsection \<open>Pruning the embedded deposits\<close>

lemma prune_scan_snd:
  "snd (prune_scan ls (lst, deps)) = deps @ bean_deposits ls"
  by (induction ls arbitrary: lst deps) (simp_all add: bean_deposits_def is_bean_deposit_def)


lemma prune_scan_fst_None:
  "bean_deposits ls = [] \<Longrightarrow> fst (prune_scan ls (None, deps)) = None"
  by (induction ls arbitrary: deps)
     (auto simp add: bean_deposits_def is_bean_deposit_def split: if_splits)




lemma remove_each_filter:
  assumes "\<forall>p \<in> set pre. \<not> is_bean_deposit p"
  shows "remove_each (bean_deposits xs) (pre @ xs) = Inr (pre @ other_logs xs)"
  using assms
proof (induction xs arbitrary: pre)
  case Nil
  then show ?case by (simp add: bean_deposits_def other_logs_def)
next
  case (Cons a xs)
  show ?case
  proof (cases "is_bean_deposit a")
    case True
    with Cons.prems have "a \<notin> set pre" by blast
    then have "remove1 a (pre @ a # xs) = pre @ xs"
      by (simp add: remove1_append)
    with True Cons.IH [OF Cons.prems] show ?thesis
      by (simp add: bean_deposits_def other_logs_def py_remove_def)
  next
    case False
    with Cons.prems have "\<forall>p \<in> set (pre @ [a]). \<not> is_bean_deposit p" by simp
    from Cons.IH [OF this] False show ?thesis
      by (simp add: bean_deposits_def other_logs_def)
  qed
qed

lemma prune_scan_eq:
  "prune_scan ls (None, []) = (fst (prune_scan ls (None, [])), bean_deposits ls)"
  using prune_scan_snd [of ls None "[]"] by (simp add: prod_eq_iff)

lemma handle_txn_logs_pruned:
  "handle_txn_logs x bc g txn_input event_logs =
     (let rep = fst (prune_scan event_logs (None, [])) in
      if multi_sig_compare (take 9 txn_input) (silo_conversion_sigs x) then
        (case silo_conversion_str x (map Some (other_logs event_logs) @ [rep]) bc (Some g) of
           Inl err \<Rightarrow> (Some err, [Log LogInfo])
         | Inr s \<Rightarrow> (None, [Log LogInfo, Message s]))
      else if multi_sig_compare (take 9 txn_input) (bean_deposit_sigs x) then
        (let (r, effs) =
               send_default_strs x bc (Some g) (map Some (other_logs event_logs) @ [rep])
         in (r, Log LogInfo # effs))
      else send_default_strs x bc (Some g) (map Some (other_logs event_logs)))"
proof -
  have "remove_each (bean_deposits event_logs) event_logs = Inr (other_logs event_logs)"
    using remove_each_filter [of "[]" event_logs] by simp
  then show ?thesis
    unfolding handle_txn_logs_def
    by (subst prune_scan_eq) (simp add: Let_def)
qed

lemma sample_conversion_parts:
  "multi_sig_compare (take 9 sample_conversion_input) (silo_conversion_sigs sample_externals)"
  "other_logs sample_conversion_logs = [sample_log ''LPRemove'' ''lp'' 2 2]"
  "bean_deposits sample_conversion_logs =
     [sample_log ''BeanDeposit'' ''beans'' 300 1, sample_log ''BeanDeposit'' ''beans'' 4000 3]"
  by (simp_all add: sample_conversion_input_def sample_externals_def sample_conversion_logs_def
      sample_log_def other_logs_def bean_deposits_def is_bean_deposit_def)

lemma sample_value: "float_mul 4000 1 = 4000"
  using round_double_int [of 4000] by (simp add: float_mul_def)

lemma sample_conversion_str:
  "silo_conversion_str sample_externals
      [Some (sample_log ''LPRemove'' ''lp'' 2 2), Some (sample_log ''BeanDeposit'' ''beans'' 4000 3)]
      sample_blockchain (Some sample_graph) =
   Inr (counterclockwise_emoji
        @ '' N ETH and N Beans of siloed LP converted to N siloed Beans ($N)''
        @ ''\<newline>'' @ str_times fish_emoji 4 @ tx_link ''0xabc'')"
  by (simp add: silo_conversion_str_def silo_step_def silo_remove_step_def silo_deposit_step_def
      silo_locals_init_def sample_externals_def sample_log_def sample_blockchain_def
      sample_graph_def args_get_def lp_eq_values_def py_div_def silo_headline_def truthy_def
      read_local_def first_tx_hash_def round_num_def value_to_emojis_def
      py_int_def py_round_def str_or_def str_times_def fish_emoji_def Let_def sample_value)




subsection \<open>A group without a deposit log\<close>

lemma silo_loop_None_fails: "\<exists>e. silo_loop x p g (ls @ [None]) s = Inl e"
  by (induction ls arbitrary: s) (auto simp add: silo_step_def split: sum.splits)

lemma silo_step_Some_ok:
  assumes "lp_supply (current_season_stats g) \<noteq> 0"
  shows "\<exists>s'. silo_step x p (Some g) (Some l) s = Inr s'"
  using assms
  by (simp add: silo_step_def silo_remove_step_def silo_deposit_step_def lp_eq_values_def
      py_div_def Let_def)

lemma silo_loop_None_AttributeError:
  assumes "lp_supply (current_season_stats g) \<noteq> 0"
  shows "silo_loop x p (Some g) (map Some ls @ [None]) s = Inl AttributeError"
proof (induction ls arbitrary: s)
  case Nil
  show ?case by (simp add: silo_step_def)
next
  case (Cons l ls)
  from silo_step_Some_ok [OF assms] obtain s' where
    "silo_step x p (Some g) (Some l) s = Inr s'" by blast
  with Cons show ?case by simp
qed

lemma silo_conversion_str_None_fails:
  "\<exists>e. silo_conversion_str x (ls @ [None]) bc g = Inl e"
  using silo_loop_None_fails [of x "current_bean_price bc" g ls silo_locals_init]
  by (auto simp add: silo_conversion_str_def Let_def)

lemma send_default_strs_None_fails:
  "\<exists>e. fst (send_default_strs x bc g (ls @ [None])) = Some e"
  by (induction ls)
     (auto simp add: default_beanstalk_event_str_def split: sum.splits prod.splits)

lemma default_beanstalk_event_str_Some_ok:
  assumes "lp_supply (current_season_stats g) \<noteq> 0"
  shows "\<exists>s effs. default_beanstalk_event_str x (Some l) bc (Some g) = (Inr s, effs)"
  using assms
  by (simp add: default_beanstalk_event_str_def lp_eq_values_def py_div_def Let_def
      split: prod.splits)

lemma send_default_strs_None_AttributeError:
  assumes "lp_supply (current_season_stats g) \<noteq> 0"
  shows "fst (send_default_strs x bc (Some g) (map Some ls @ [None])) = Some AttributeError"
proof (induction ls)
  case Nil
  show ?case by (simp add: default_beanstalk_event_str_def)
next
  case (Cons l ls)
  from default_beanstalk_event_str_Some_ok [OF assms] obtain s effs where
    "default_beanstalk_event_str x (Some l) bc (Some g) = (Inr s, effs)" by blast
  with Cons show ?case by (auto split: prod.splits)
qed

lemma handle_txn_logs_no_deposit:
  assumes "multi_sig_compare (take 9 txn_input) (silo_conversion_sigs x)
      \<or> multi_sig_compare (take 9 txn_input) (bean_deposit_sigs x)"
    and "bean_deposits event_logs = []"
  shows "\<exists>e. fst (handle_txn_logs x bc g txn_input event_logs) = Some e"
    and "lp_supply (current_season_stats g) \<noteq> 0
      \<Longrightarrow> fst (handle_txn_logs x bc g txn_input event_logs) = Some AttributeError"
proof -
  have rep: "fst (prune_scan event_logs (None, [])) = None"
    using assms(2) by (rule prune_scan_fst_None)
  let ?logs = "map Some (other_logs event_logs)"
  from silo_conversion_str_None_fails obtain e1 where
    e1: "silo_conversion_str x (?logs @ [None]) bc (Some g) = Inl e1" by blast
  from send_default_strs_None_fails obtain e2 where
    e2: "fst (send_default_strs x bc (Some g) (?logs @ [None])) = Some e2" by blast
  from assms(1) rep e1 e2
  show "\<exists>e. fst (handle_txn_logs x bc g txn_input event_logs) = Some e"
    by (auto simp add: handle_txn_logs_pruned split: prod.splits)
  assume nz: "lp_supply (current_season_stats g) \<noteq> 0"
  have "silo_conversion_str x (?logs @ [None]) bc (Some g) = Inl AttributeError"
    using silo_loop_None_AttributeError [OF nz]
    by (simp add: silo_conversion_str_def)
  moreover have "fst (send_default_strs x bc (Some g) (?logs @ [None])) = Some AttributeError"
    using nz by (rule send_default_strs_None_AttributeError)
  ultimately show "fst (handle_txn_logs x bc g txn_input event_logs) = Some AttributeError"
    using assms(1) rep by (auto simp add: handle_txn_logs_pruned split: prod.splits)
qed

text \<open>
  Claim C9. Let the method prefix match a silo-conversion or a bean-deposit signature.
  If the group holds no \<^verbatim>\<open>BeanDeposit\<close> log, the retained representative is \<^verbatim>\<open>None\<close>,
  it is appended to the group, and the handler ends with an exception: the
  \<^verbatim>\<open>AttributeError\<close> of reading an attribute of \<^verbatim>\<open>None\<close> whenever the pool's LP supply
  is not zero (so that no earlier log fails). Hence a call that ends without an
  exception had a \<^verbatim>\<open>BeanDeposit\<close> log in its group.
\<close>

theorem handle_txn_logs_needs_deposit:
  assumes "multi_sig_compare (take 9 txn_input) (silo_conversion_sigs x)
      \<or> multi_sig_compare (take 9 txn_input) (bean_deposit_sigs x)"
  shows "(bean_deposits event_logs = [] \<longrightarrow>
            fst (prune_scan event_logs (None, [])) = None
          \<and> (\<exists>e. fst (handle_txn_logs x bc g txn_input event_logs) = Some e)
          \<and> (lp_supply (current_season_stats g) \<noteq> 0 \<longrightarrow>
               fst (handle_txn_logs x bc g txn_input event_logs) = Some AttributeError))
     \<and> (fst (handle_txn_logs x bc g txn_input event_logs) = None \<longrightarrow>
          bean_deposits event_logs \<noteq> [])"
  using handle_txn_logs_no_deposit [OF assms, where event_logs = event_logs and bc = bc and g = g]
    prune_scan_fst_None [of event_logs "[]"]
  by auto

theorem handle_txn_logs_needs_deposit_witness:
  "multi_sig_compare (take 9 sample_conversion_input) (silo_conversion_sigs sample_externals)
   \<and> bean_deposits [sample_log ''LPRemove'' ''lp'' 2 2] = []
   \<and> lp_supply (current_season_stats sample_graph) \<noteq> 0
   \<and> fst (prune_scan [sample_log ''LPRemove'' ''lp'' 2 2] (None, [])) = None
   \<and> fst (handle_txn_logs sample_externals sample_blockchain sample_graph
        sample_conversion_input [sample_log ''LPRemove'' ''lp'' 2 2]) = Some AttributeError
   \<and> multi_sig_compare (take 9 sample_deposit_input) (bean_deposit_sigs sample_externals)
   \<and> fst (handle_txn_logs sample_externals sample_blockchain sample_graph
        sample_deposit_input [sample_log ''LPRemove'' ''lp'' 2 2]) = Some AttributeError"
proof -
  have conv: "multi_sig_compare (take 9 sample_conversion_input)
      (silo_conversion_sigs sample_externals)"
    by (rule sample_conversion_parts(1))
  have dep: "multi_sig_compare (take 9 sample_deposit_input) (bean_deposit_sigs sample_externals)"
    by (simp add: sample_deposit_input_def sample_externals_def)
  have none: "bean_deposits [sample_log ''LPRemove'' ''lp'' 2 2] = []"
    by (simp add: bean_deposits_def is_bean_deposit_def sample_log_def)
  have nz: "lp_supply (current_season_stats sample_graph) \<noteq> 0"
    by (simp add: sample_graph_def)
  from handle_txn_logs_needs_deposit [of sample_conversion_input sample_externals
      "[sample_log ''LPRemove'' ''lp'' 2 2]" sample_blockchain sample_graph] conv none nz
  have 1: "fst (prune_scan [sample_log ''LPRemove'' ''lp'' 2 2] (None, [])) = None"
    and 2: "fst (handle_txn_logs sample_externals sample_blockchain sample_graph
        sample_conversion_input [sample_log ''LPRemove'' ''lp'' 2 2]) = Some AttributeError"
    by blast+
  from handle_txn_logs_needs_deposit [of sample_deposit_input sample_externals
      "[sample_log ''LPRemove'' ''lp'' 2 2]" sample_blockchain sample_graph] dep none nz
  have 3: "fst (handle_txn_logs sample_externals sample_blockchain sample_graph
        sample_deposit_input [sample_log ''LPRemove'' ''lp'' 2 2]) = Some AttributeError"
    by blast
  from conv dep none nz 1 2 3 show ?thesis by blast
qed

section \<open>Properties of the rendered strings\<close>

subsection \<open>How a string ends\<close>

lemma ends_with_refl: "ends_with s s"
  by (simp add: ends_with_def)

lemma ends_with_append: "ends_with suf s \<Longrightarrow> ends_with suf (p @ s)"
  by (auto simp add: ends_with_def)

lemma ends_with_Cons: "ends_with suf s \<Longrightarrow> ends_with suf (c # s)"
  using ends_with_append [of suf s "[c]"] by simp

lemma ends_with_last:
  assumes "ends_with suf s" "suf \<noteq> []"
  shows "last s = last suf"
proof -
  from assms have "length suf \<le> length s" and d: "drop (length s - length suf) s = suf"
    by (simp_all add: ends_with_def)
  moreover from assms(2) have "0 < length suf" by simp
  ultimately have "length s - length suf < length s" by linarith
  with d show ?thesis by (metis last_drop)
qed

lemma tx_link_last: "last (tx_link h) = CHR ''>''"
  by (simp add: tx_link_def)

lemma blank_line_marker_last: "last blank_line_marker = CHR ''_''"
  by (simp add: blank_line_marker_def)

lemma ends_with_link_not_marker:
  assumes "ends_with (tx_link h) s"
  shows "\<not> ends_with blank_line_marker s"
    and "\<not> ends_with (tx_link h' @ blank_line_marker) s"
proof -
  have "tx_link h \<noteq> []" by (simp add: tx_link_def)
  with assms have gt: "last s = CHR ''>''"
    using ends_with_last tx_link_last by metis
  show "\<not> ends_with blank_line_marker s"
  proof
    assume "ends_with blank_line_marker s"
    moreover have "blank_line_marker \<noteq> []" by (simp add: blank_line_marker_def)
    ultimately have "last s = CHR ''_''"
      using ends_with_last blank_line_marker_last by metis
    with gt show False by simp
  qed
  show "\<not> ends_with (tx_link h' @ blank_line_marker) s"
  proof
    assume "ends_with (tx_link h' @ blank_line_marker) s"
    moreover have "tx_link h' @ blank_line_marker \<noteq> []" by (simp add: blank_line_marker_def)
    moreover have "last (tx_link h' @ blank_line_marker) = CHR ''_''"
      by (simp add: blank_line_marker_def)
    ultimately have "last s = CHR ''_''"
      using ends_with_last by metis
    with gt show False by simp
  qed
qed

subsection \<open>Pool and Beanstalk event strings end with the link and the marker\<close>

lemma default_pool_event_str_ending:
  "fst (default_pool_event_str x l bc) = []
   \<or> ends_with (tx_link (transactionHash l) @ blank_line_marker)
        (fst (default_pool_event_str x l bc))"
proof -
  define f where "f = tx_link (transactionHash l) @ blank_line_marker"
  have "fst (default_pool_event_str x l bc) = [] \<or> ends_with f (fst (default_pool_event_str x l bc))"
    unfolding default_pool_event_str_def Let_def f_def [symmetric]
    by (auto split: prod.splits intro!: ends_with_append ends_with_Cons ends_with_refl)
  then show ?thesis by (simp add: f_def)
qed

lemma default_beanstalk_event_str_ending:
  assumes "default_beanstalk_event_str x (Some l) bc g = (Inr s, effs)"
  shows "s = [] \<or> ends_with (tx_link (transactionHash l) @ blank_line_marker) s"
proof -
  define f where "f = tx_link (transactionHash l) @ blank_line_marker"
  have "case default_beanstalk_event_str x (Some l) bc g of
          (Inr s, effs) \<Rightarrow> s = [] \<or> ends_with f s
        | (Inl e, effs) \<Rightarrow> True"
    unfolding default_beanstalk_event_str_def Let_def option.case f_def [symmetric]
    by (auto split: prod.splits sum.splits intro!: ends_with_append ends_with_Cons ends_with_refl)
  with assms show ?thesis by (simp add: f_def)
qed

subsection \<open>Silo conversion strings end with the link alone\<close>

lemma silo_conversion_str_ending:
  assumes "silo_conversion_str x ls bc g = Inr s"
  shows "\<exists>h. ends_with (tx_link h) s"
proof -
  have "case silo_conversion_str x ls bc g of
          Inr s \<Rightarrow> \<exists>h. ends_with (tx_link h) s
        | Inl e \<Rightarrow> True"
    unfolding silo_conversion_str_def Let_def
    by (auto split: sum.splits intro!: exI ends_with_append ends_with_Cons ends_with_refl)
  with assms show ?thesis by simp
qed

text \<open>
  Claim C7 at a silo conversion: the string rendered for the group
  \<^verbatim>\<open>[LPRemove, BeanDeposit]\<close> is not empty and ends with the link of the transaction,
  and the blank-line marker \<^verbatim>\<open>'\n_ _'\<close> does not follow.
\<close>

theorem silo_conversion_str_lacks_marker:
  "\<exists>s. silo_conversion_str sample_externals
          [Some (sample_log ''LPRemove'' ''lp'' 2 2),
           Some (sample_log ''BeanDeposit'' ''beans'' 4000 3)]
          sample_blockchain (Some sample_graph) = Inr s
      \<and> s \<noteq> []
      \<and> ends_with (tx_link ''0xabc'') s
      \<and> \<not> ends_with blank_line_marker s
      \<and> \<not> ends_with (tx_link ''0xabc'' @ blank_line_marker) s"
proof -
  let ?s = "counterclockwise_emoji
        @ '' N ETH and N Beans of siloed LP converted to N siloed Beans ($N)''
        @ ''\<newline>'' @ str_times fish_emoji 4 @ tx_link ''0xabc''"
  have e: "ends_with (tx_link ''0xabc'') ?s"
    by (intro ends_with_append ends_with_refl)
  have "?s \<noteq> []" by simp
  with e ends_with_link_not_marker [OF e] sample_conversion_str show ?thesis
    by blast
qed

subsection \<open>Kinds the classifier does not render\<close>

lemma default_beanstalk_event_str_suppressed:
  assumes "lp_supply (current_season_stats g) \<noteq> 0"
  shows "event l = ''BeanRemove'' \<or> event l = ''LPRemove''
      \<Longrightarrow> default_beanstalk_event_str x (Some l) bc (Some g) = (Inr [], [])"
    and "event l \<notin> {''BeanRemove'', ''LPRemove'', ''LPDeposit'', ''LPWithdraw'', ''LPClaim'',
          ''BeanDeposit'', ''BeanWithdraw'', ''BeanClaim'', ''Sow''}
      \<Longrightarrow> default_beanstalk_event_str x (Some l) bc (Some g) = (Inr [], [Log LogWarning])"
  using assms
  by (auto simp add: default_beanstalk_event_str_def lp_eq_values_def py_div_def Let_def
      split: prod.splits)

lemma default_pool_event_str_other_kind:
  assumes "event l \<noteq> ''Mint''" "event l \<noteq> ''Burn''" "event l \<noteq> ''Swap''"
  shows "default_pool_event_str x l bc = (tx_link (transactionHash l) @ blank_line_marker, [])"
  using assms by (simp add: default_pool_event_str_def Let_def split: prod.splits)

text \<open>
  Claim C8 at the pool classifier: for a log of a kind it does not know (here the
  pair's \<^verbatim>\<open>Sync\<close> event) \<^verbatim>\<open>default_pool_event_str\<close> returns a string that is not
  empty, the link and the marker alone, and logs nothing.
\<close>

theorem default_pool_event_str_unrecognized:
  "default_pool_event_str x (sample_log ''Sync'' ''reserve0'' 5 7) bc
     = (tx_link ''0xabc'' @ blank_line_marker, [])
   \<and> fst (default_pool_event_str x (sample_log ''Sync'' ''reserve0'' 5 7) bc) \<noteq> []
   \<and> snd (default_pool_event_str x (sample_log ''Sync'' ''reserve0'' 5 7) bc) = []"
proof -
  have "default_pool_event_str x (sample_log ''Sync'' ''reserve0'' 5 7) bc
     = (tx_link ''0xabc'' @ blank_line_marker, [])"
    by (simp add: default_pool_event_str_other_kind sample_log_def)
  then show ?thesis by (simp add: blank_line_marker_def)
qed

section \<open>Properties of the peg cross monitor\<close>

lemma consecutive_ids_nth:
  "consecutive_ids cs \<Longrightarrow> i < length cs \<Longrightarrow> cross_id (cs ! i) = cross_id (hd cs) + int i"
proof -
  assume a: "consecutive_ids cs" and i: "i < length cs"
  then have "map cross_id cs ! i = map (\<lambda>i. cross_id (hd cs) + int i) [0..<length cs] ! i"
    by (simp add: consecutive_ids_def)
  with i show ?thesis by simp
qed

lemma increasing_timestamps_nth:
  "increasing_timestamps cs \<Longrightarrow> i < j \<Longrightarrow> j < length cs \<Longrightarrow> timestamp (cs ! i) < timestamp (cs ! j)"
  by (simp add: increasing_timestamps_def sorted_wrt_iff_nth_less)

lemma send_crosses_map:
  "send_crosses (map cross_type_of cs) = map (peg_cross_string \<circ> cross_type_of) cs"
  by (induction cs) (simp_all add: cross_type_of_def)

lemma peg_poll_first:
  "peg_poll client None = (Some (last_cross client), [])"
  by (simp add: peg_poll_def check_for_peg_crosses_def)

lemma last_take_nth:
  assumes "0 < m" "m \<le> length cs"
  shows "last (take m cs) = cs ! (m - 1)"
proof -
  from assms have "take m cs \<noteq> []" by auto
  then have "last (take m cs) = take m cs ! (length (take m cs) - 1)"
    by (rule last_conv_nth)
  with assms show ?thesis by simp
qed

lemma peg_poll_step:
  assumes ids: "consecutive_ids cs" and ts: "increasing_timestamps cs"
    and k: "0 < k" "k \<le> m" "m \<le> length cs"
  shows "peg_poll (graph_of (take m cs)) (Some (cs ! (k - 1)))
       = (Some (cs ! (m - 1)), map (peg_cross_string \<circ> cross_type_of) (drop k (take m cs)))"
proof (cases "k = m")
  case True
  with k have "last (take m cs) = cs ! (m - 1)"
    by (simp add: last_take_nth)
  with True show ?thesis
    by (simp add: peg_poll_def check_for_peg_crosses_def graph_of_def)
next
  case False
  with k have lt: "k < m" by simp
  from k have latest: "last (take m cs) = cs ! (m - 1)"
    by (simp add: last_take_nth)
  have newer: "timestamp (cs ! (k - 1)) < timestamp (cs ! (m - 1))"
    using increasing_timestamps_nth [OF ts, of "k - 1" "m - 1"] k lt by simp
  have delta: "cross_id (cs ! (m - 1)) - cross_id (cs ! (k - 1)) = int m - int k"
    using consecutive_ids_nth [OF ids, of "m - 1"] consecutive_ids_nth [OF ids, of "k - 1"] k lt
    by simp
  show ?thesis
  proof (cases "int m - int k > 1")
    case True
    have "m - nat (int m - int k) = k" using lt by linarith
    with k have "drop (length (take m cs) - nat (int m - int k)) (take m cs) = drop k (take m cs)"
      by simp
    with True newer delta latest show ?thesis
      by (simp add: peg_poll_def check_for_peg_crosses_def graph_of_def Let_def send_crosses_map)
  next
    case one: False
    with lt have m: "m = Suc k" by simp
    with k have "drop k (take m cs) = [cs ! k]"
      by (simp add: take_Suc_conv_app_nth)
    with one newer delta latest m show ?thesis
      by (simp add: peg_poll_def check_for_peg_crosses_def graph_of_def Let_def cross_type_of_def)
  qed
qed

lemma run_polls_from:
  assumes ids: "consecutive_ids cs" and ts: "increasing_timestamps cs"
  shows "0 < k \<Longrightarrow> sorted (k # ns) \<Longrightarrow> \<forall>n \<in> set (k # ns). n \<le> length cs
    \<Longrightarrow> run_polls cs ns (Some (cs ! (k - 1)))
        = map (peg_cross_string \<circ> cross_type_of) (drop k (take (last (k # ns)) cs))"
proof (induction ns arbitrary: k)
  case Nil
  then show ?case by simp
next
  case (Cons m ns)
  from Cons.prems have km: "k \<le> m" "m \<le> length cs" "0 < m" by auto
  from Cons.prems have rest: "sorted (m # ns)" "\<forall>n \<in> set (m # ns). n \<le> length cs" by auto
  have step: "peg_poll (graph_of (take m cs)) (Some (cs ! (k - 1)))
       = (Some (cs ! (m - 1)), map (peg_cross_string \<circ> cross_type_of) (drop k (take m cs)))"
    using peg_poll_step [OF ids ts Cons.prems(1) km(1) km(2)] .
  have le: "m \<le> last (m # ns)"
    using rest(1) by (cases ns) auto
  have "drop k (take (last (m # ns)) cs)
      = drop k (take m cs) @ drop m (take (last (m # ns)) cs)"
  proof -
    have "take (last (m # ns)) cs = take m cs @ drop m (take (last (m # ns)) cs)"
      using le by (metis append_take_drop_id min.absorb1 take_take)
    then have "drop k (take (last (m # ns)) cs)
        = drop k (take m cs @ drop m (take (last (m # ns)) cs))" by simp
    also have "\<dots> = drop k (take m cs) @ drop m (take (last (m # ns)) cs)"
      using km by simp
    finally show ?thesis .
  qed
  with step Cons.IH [OF km(3) rest] show ?case by simp
qed

lemma run_polls_fresh:
  assumes "consecutive_ids cs" "increasing_timestamps cs"
    and "0 < n" "sorted (n # ns)" "\<forall>m \<in> set (n # ns). m \<le> length cs"
  shows "run_polls cs (n # ns) None
       = map (peg_cross_string \<circ> cross_type_of) (drop n (take (last (n # ns)) cs))"
proof -
  from assms(3,5) have "last (take n cs) = cs ! (n - 1)"
    by (simp add: last_take_nth)
  then have "run_polls cs (n # ns) None = run_polls cs ns (Some (cs ! (n - 1)))"
    by (simp add: peg_poll_first graph_of_def)
  with run_polls_from [OF assms] show ?thesis by simp
qed

lemma check_for_peg_crosses_behind:
  assumes "timestamp known < timestamp (last_cross client)"
    and "1 < cross_id (last_cross client) - cross_id known"
  shows "check_for_peg_crosses client (Some known) =
      (map cross_type_of (get_last_crosses client (cross_id (last_cross client) - cross_id known)),
       Some (last_cross client),
       [LastCross, GetLastCrosses (cross_id (last_cross client) - cross_id known)])"
  using assms by (simp add: check_for_peg_crosses_def Let_def)

lemma cross_texts:
  "peg_cross_string CROSS_ABOVE = [CHR 0xF0, CHR 0x9F, CHR 0x9F, CHR 0xA9, CHR 0xE2, CHR 0x86, CHR 0x97] @ '' BEAN crossed above peg!''"
  "peg_cross_string CROSS_BELOW = [CHR 0xF0, CHR 0x9F, CHR 0x9F, CHR 0xA5, CHR 0xE2, CHR 0x86, CHR 0x98] @ '' BEAN crossed below peg!''"
  by (simp_all add: green_square_emoji_def red_square_emoji_def north_east_arrow_def
      south_east_arrow_def)

lemma cross_text_of:
  "peg_cross_string \<circ> cross_type_of = (\<lambda>c. if above c then [CHR 0xF0, CHR 0x9F, CHR 0x9F, CHR 0xA9, CHR 0xE2, CHR 0x86, CHR 0x97] @ '' BEAN crossed above peg!'' else [CHR 0xF0, CHR 0x9F, CHR 0x9F, CHR 0xA5, CHR 0xE2, CHR 0x86, CHR 0x98] @ '' BEAN crossed below peg!'')"
  by (auto simp add: fun_eq_iff cross_type_of_def green_square_emoji_def red_square_emoji_def north_east_arrow_def
      south_east_arrow_def)

lemma cross_type_of_eq:
  "cross_type_of = (\<lambda>c. if above c then CROSS_ABOVE else CROSS_BELOW)"
  by (simp add: fun_eq_iff cross_type_of_def)

text \<open>
  Claim C2, as the code has it. On the first fetch the detector only stores the latest
  record and sends nothing. When the latest record's timestamp is not newer than the
  stored one it sends nothing and keeps its state, whatever the ids are. When it is
  newer and the latest id exceeds the stored id by \<open>delta > 1\<close>, the detector asks the
  source for exactly \<open>delta\<close> records and sends one classified cross per record it gets,
  in the order it gets them: \<open>delta\<close> crosses when the source returns as many as asked.
  When it is newer and \<open>delta \<le> 1\<close>, it sends the cross of the latest record. A record
  is classified \<^verbatim>\<open>CROSS_ABOVE\<close> when its \<^verbatim>\<open>above\<close> is true and \<^verbatim>\<open>CROSS_BELOW\<close>
  otherwise, and the two are sent as two different fixed texts. Over a run of polls on a
  growing graph whose crosses carry consecutive ids (every id has its record) and
  strictly increasing timestamps, the messages sent are, in order, exactly one per cross
  that appeared after the first poll.
\<close>

theorem peg_crosses_each_new_id_once:
  "(let above_text = [CHR 0xF0, CHR 0x9F, CHR 0x9F, CHR 0xA9, CHR 0xE2, CHR 0x86, CHR 0x97] @ '' BEAN crossed above peg!'';
        below_text = [CHR 0xF0, CHR 0x9F, CHR 0x9F, CHR 0xA5, CHR 0xE2, CHR 0x86, CHR 0x98] @ '' BEAN crossed below peg!'';
        delta = cross_id (last_cross client) - cross_id known
    in peg_poll client None = (Some (last_cross client), [])
     \<and> check_for_peg_crosses client None = ([NO_CROSS], Some (last_cross client), [LastCross])
     \<and> (timestamp (last_cross client) \<le> timestamp known \<longrightarrow>
          check_for_peg_crosses client (Some known) = ([NO_CROSS], Some known, [LastCross])
          \<and> peg_poll client (Some known) = (Some known, []))
     \<and> (timestamp known < timestamp (last_cross client) \<and> 1 < delta \<longrightarrow>
          check_for_peg_crosses client (Some known)
            = (map (\<lambda>c. if above c then CROSS_ABOVE else CROSS_BELOW)
                 (get_last_crosses client delta),
               Some (last_cross client), [LastCross, GetLastCrosses delta])
          \<and> peg_poll client (Some known)
            = (Some (last_cross client),
               map (\<lambda>c. if above c then above_text else below_text)
                 (get_last_crosses client delta))
          \<and> length (snd (peg_poll client (Some known)))
            = length (get_last_crosses client delta))
     \<and> (timestamp known < timestamp (last_cross client) \<and> delta \<le> 1 \<longrightarrow>
          check_for_peg_crosses client (Some known)
            = ([if above (last_cross client) then CROSS_ABOVE else CROSS_BELOW],
               Some (last_cross client), [LastCross])
          \<and> peg_poll client (Some known)
            = (Some (last_cross client),
               [if above (last_cross client) then above_text else below_text]))
     \<and> (consecutive_ids cs \<and> increasing_timestamps cs
          \<and> 0 < n \<and> sorted (n # ns) \<and> (\<forall>m \<in> set (n # ns). m \<le> length cs) \<longrightarrow>
          run_polls cs (n # ns) None
            = map (\<lambda>c. if above c then above_text else below_text)
                (drop n (take (last (n # ns)) cs)))
     \<and> peg_cross_string CROSS_ABOVE = above_text
     \<and> peg_cross_string CROSS_BELOW = below_text
     \<and> above_text \<noteq> below_text)"
proof -
  let ?delta = "cross_id (last_cross client) - cross_id known"
  let ?text = "\<lambda>c. if above c then [CHR 0xF0, CHR 0x9F, CHR 0x9F, CHR 0xA9, CHR 0xE2, CHR 0x86, CHR 0x97] @ '' BEAN crossed above peg!'' else [CHR 0xF0, CHR 0x9F, CHR 0x9F, CHR 0xA5, CHR 0xE2, CHR 0x86, CHR 0x98] @ '' BEAN crossed below peg!''"
  have first: "peg_poll client None = (Some (last_cross client), [])"
    by (rule peg_poll_first)
  have first_check:
    "check_for_peg_crosses client None = ([NO_CROSS], Some (last_cross client), [LastCross])"
    by (simp add: check_for_peg_crosses_def)
  have quiet: "check_for_peg_crosses client (Some known) = ([NO_CROSS], Some known, [LastCross])
      \<and> peg_poll client (Some known) = (Some known, [])"
    if "timestamp (last_cross client) \<le> timestamp known"
    using that by (simp add: peg_poll_def check_for_peg_crosses_def)
  have behind: "check_for_peg_crosses client (Some known)
        = (map (\<lambda>c. if above c then CROSS_ABOVE else CROSS_BELOW)
             (get_last_crosses client ?delta),
           Some (last_cross client), [LastCross, GetLastCrosses ?delta])
      \<and> peg_poll client (Some known)
        = (Some (last_cross client), map ?text (get_last_crosses client ?delta))
      \<and> length (snd (peg_poll client (Some known)))
        = length (get_last_crosses client ?delta)"
    if "timestamp known < timestamp (last_cross client) \<and> 1 < ?delta"
  proof -
    from that have c: "check_for_peg_crosses client (Some known) =
        (map cross_type_of (get_last_crosses client ?delta),
         Some (last_cross client), [LastCross, GetLastCrosses ?delta])"
      by (simp add: check_for_peg_crosses_behind)
    then have "peg_poll client (Some known)
        = (Some (last_cross client),
           map (peg_cross_string \<circ> cross_type_of) (get_last_crosses client ?delta))"
      by (simp add: peg_poll_def send_crosses_map)
    then have "peg_poll client (Some known)
        = (Some (last_cross client), map ?text (get_last_crosses client ?delta))"
      by (simp only: cross_text_of)
    moreover from c have "check_for_peg_crosses client (Some known)
        = (map (\<lambda>c. if above c then CROSS_ABOVE else CROSS_BELOW)
             (get_last_crosses client ?delta),
           Some (last_cross client), [LastCross, GetLastCrosses ?delta])"
      by (simp only: cross_type_of_eq)
    ultimately show ?thesis by simp
  qed
  have single: "check_for_peg_crosses client (Some known)
        = ([if above (last_cross client) then CROSS_ABOVE else CROSS_BELOW],
           Some (last_cross client), [LastCross])
      \<and> peg_poll client (Some known)
        = (Some (last_cross client), [?text (last_cross client)])"
    if "timestamp known < timestamp (last_cross client) \<and> ?delta \<le> 1"
    using that
    by (simp add: peg_poll_def check_for_peg_crosses_def Let_def cross_type_of_def
      green_square_emoji_def red_square_emoji_def north_east_arrow_def
      south_east_arrow_def)
  have run: "run_polls cs (n # ns) None = map ?text (drop n (take (last (n # ns)) cs))"
    if "consecutive_ids cs \<and> increasing_timestamps cs
      \<and> 0 < n \<and> sorted (n # ns) \<and> (\<forall>m \<in> set (n # ns). m \<le> length cs)"
  proof -
    from that have "run_polls cs (n # ns) None
        = map (peg_cross_string \<circ> cross_type_of) (drop n (take (last (n # ns)) cs))"
      by (intro run_polls_fresh) blast+
    then show ?thesis by (simp only: cross_text_of)
  qed
  have differ: "[CHR 0xF0, CHR 0x9F, CHR 0x9F, CHR 0xA9, CHR 0xE2, CHR 0x86, CHR 0x97] @ '' BEAN crossed above peg!'' \<noteq> [CHR 0xF0, CHR 0x9F, CHR 0x9F, CHR 0xA5, CHR 0xE2, CHR 0x86, CHR 0x98] @ '' BEAN crossed below peg!''"
    by simp
  from first first_check quiet behind single run differ cross_texts show ?thesis
    unfolding Let_def by blast
qed

theorem peg_crosses_each_new_id_once_witness:
  "consecutive_ids sample_crosses \<and> increasing_timestamps sample_crosses
   \<and> (0::nat) < 1 \<and> sorted [1, 2, 2, 4::nat] \<and> 4 \<le> length sample_crosses
   \<and> run_polls sample_crosses [1, 2, 2, 4] None
       = [[CHR 0xF0, CHR 0x9F, CHR 0x9F, CHR 0xA5, CHR 0xE2, CHR 0x86, CHR 0x98] @ '' BEAN crossed below peg!'',
          [CHR 0xF0, CHR 0x9F, CHR 0x9F, CHR 0xA9, CHR 0xE2, CHR 0x86, CHR 0x97] @ '' BEAN crossed above peg!'',
          [CHR 0xF0, CHR 0x9F, CHR 0x9F, CHR 0xA5, CHR 0xE2, CHR 0x86, CHR 0x98] @ '' BEAN crossed below peg!'']
   \<and> timestamp (sample_crosses ! 0) < timestamp (last_cross (graph_of sample_crosses))
   \<and> 1 < cross_id (last_cross (graph_of sample_crosses)) - cross_id (sample_crosses ! 0)
   \<and> check_for_peg_crosses (graph_of sample_crosses) (Some (sample_crosses ! 0))
       = ([CROSS_BELOW, CROSS_ABOVE, CROSS_BELOW], Some (sample_crosses ! 3),
          [LastCross, GetLastCrosses 3])
   \<and> length (snd (peg_poll (graph_of sample_crosses) (Some (sample_crosses ! 0)))) = 3
   \<and> timestamp (sample_crosses ! 2) < timestamp (last_cross (graph_of sample_crosses))
   \<and> cross_id (last_cross (graph_of sample_crosses)) - cross_id (sample_crosses ! 2) \<le> 1
   \<and> check_for_peg_crosses (graph_of sample_crosses) (Some (sample_crosses ! 2))
       = ([CROSS_BELOW], Some (sample_crosses ! 3), [LastCross])
   \<and> timestamp (last_cross (graph_of sample_crosses)) \<le> timestamp (sample_crosses ! 3)
   \<and> peg_poll (graph_of sample_crosses) (Some (sample_crosses ! 3)) = (Some (sample_crosses ! 3), [])"
proof -
  have ids: "consecutive_ids sample_crosses"
    by (simp add: consecutive_ids_def sample_crosses_def upt_rec)
  have ts: "increasing_timestamps sample_crosses"
    by (simp add: increasing_timestamps_def sample_crosses_def)
  have polls: "(0::nat) < 1" "sorted [1, 2, 2, 4::nat]"
    "\<forall>m \<in> set [1, 2, 2, 4]. m \<le> length sample_crosses"
    by (simp_all add: sample_crosses_def)
  have latest: "last_cross (graph_of sample_crosses) = sample_crosses ! 3"
    by (simp add: graph_of_def sample_crosses_def)
  have newer: "timestamp (sample_crosses ! 0) < timestamp (last_cross (graph_of sample_crosses))"
    and delta: "cross_id (last_cross (graph_of sample_crosses)) - cross_id (sample_crosses ! 0) = 3"
    and newer2: "timestamp (sample_crosses ! 2) < timestamp (last_cross (graph_of sample_crosses))"
    and delta2: "cross_id (last_cross (graph_of sample_crosses)) - cross_id (sample_crosses ! 2) = 1"
    and same: "timestamp (last_cross (graph_of sample_crosses)) \<le> timestamp (sample_crosses ! 3)"
    and below: "\<not> above (last_cross (graph_of sample_crosses))"
    by (simp_all add: latest) (simp_all add: sample_crosses_def)
  have answered: "get_last_crosses (graph_of sample_crosses) 3 = drop 1 sample_crosses"
    by (simp add: graph_of_def sample_crosses_def)
  have aboves: "map above (drop 1 sample_crosses) = [False, True, False]"
    "drop 1 (take (last [1, 2, 2, 4]) sample_crosses) = drop 1 sample_crosses"
    "length (drop 1 sample_crosses) = 3"
    by (simp_all add: sample_crosses_def)
  note inst = peg_crosses_each_new_id_once [unfolded Let_def,
      of "graph_of sample_crosses" _ sample_crosses 1 "[2, 2, 4]"]
  from inst [of "sample_crosses ! 0"] ids ts polls
  have "run_polls sample_crosses [1, 2, 2, 4] None
      = map (\<lambda>c. if above c then [CHR 0xF0, CHR 0x9F, CHR 0x9F, CHR 0xA9, CHR 0xE2, CHR 0x86, CHR 0x97] @ '' BEAN crossed above peg!''
                 else [CHR 0xF0, CHR 0x9F, CHR 0x9F, CHR 0xA5, CHR 0xE2, CHR 0x86, CHR 0x98] @ '' BEAN crossed below peg!'')
          (drop 1 (take (last [1, 2, 2, 4]) sample_crosses))"
    by blast
  then have run: "run_polls sample_crosses [1, 2, 2, 4] None
      = [[CHR 0xF0, CHR 0x9F, CHR 0x9F, CHR 0xA5, CHR 0xE2, CHR 0x86, CHR 0x98] @ '' BEAN crossed below peg!'',
         [CHR 0xF0, CHR 0x9F, CHR 0x9F, CHR 0xA9, CHR 0xE2, CHR 0x86, CHR 0x97] @ '' BEAN crossed above peg!'',
         [CHR 0xF0, CHR 0x9F, CHR 0x9F, CHR 0xA5, CHR 0xE2, CHR 0x86, CHR 0x98] @ '' BEAN crossed below peg!'']"
    unfolding aboves(2) by (simp add: sample_crosses_def)
  from inst [of "sample_crosses ! 0"] newer delta
  have "check_for_peg_crosses (graph_of sample_crosses) (Some (sample_crosses ! 0))
      = (map (\<lambda>c. if above c then CROSS_ABOVE else CROSS_BELOW)
           (get_last_crosses (graph_of sample_crosses) 3),
         Some (last_cross (graph_of sample_crosses)), [LastCross, GetLastCrosses 3])"
    and count: "length (snd (peg_poll (graph_of sample_crosses) (Some (sample_crosses ! 0))))
      = length (get_last_crosses (graph_of sample_crosses) 3)"
    by simp_all
  then have calls: "check_for_peg_crosses (graph_of sample_crosses) (Some (sample_crosses ! 0))
      = ([CROSS_BELOW, CROSS_ABOVE, CROSS_BELOW], Some (sample_crosses ! 3),
         [LastCross, GetLastCrosses 3])"
    unfolding answered latest by (simp add: sample_crosses_def)
  from inst [of "sample_crosses ! 2"] newer2 delta2 below
  have "check_for_peg_crosses (graph_of sample_crosses) (Some (sample_crosses ! 2))
      = ([CROSS_BELOW], Some (last_cross (graph_of sample_crosses)), [LastCross])"
    by simp
  then have one: "check_for_peg_crosses (graph_of sample_crosses) (Some (sample_crosses ! 2))
      = ([CROSS_BELOW], Some (sample_crosses ! 3), [LastCross])"
    by (simp add: latest)
  from inst [of "sample_crosses ! 3"] same
  have quiet: "peg_poll (graph_of sample_crosses) (Some (sample_crosses ! 3))
      = (Some (sample_crosses ! 3), [])"
    by blast
  have "4 \<le> length sample_crosses" by (simp add: sample_crosses_def)
  with ids ts polls(1,2) run newer delta newer2 delta2 calls count answered aboves(3) one same
    quiet
  show ?thesis
    by simp
qed

text \<open>
  The claim as written asks of the records only that their ids increase strictly. With
  ids 1 and 2 and equal timestamps, the second record has a new id and nothing is sent
  for it. With ids 1 and 3, the detector asks for two records and sends two crosses:
  the record with id 1, which it had stored on the first fetch, is sent with the new
  one, so that one new id gives two messages.
\<close>

theorem peg_crosses_each_new_id_once_counterexample:
  "sorted_wrt (<) (map cross_id tied_crosses)
   \<and> run_polls tied_crosses [1, 2] None = []
   \<and> sorted_wrt (<) (map cross_id gapped_crosses)
   \<and> check_for_peg_crosses (graph_of gapped_crosses) (Some (gapped_crosses ! 0))
       = ([CROSS_ABOVE, CROSS_BELOW], Some (gapped_crosses ! 1), [LastCross, GetLastCrosses 2])
   \<and> run_polls gapped_crosses [1, 2] None
       = [peg_cross_string CROSS_ABOVE, peg_cross_string CROSS_BELOW]"
proof -
  have tied: "run_polls tied_crosses [1, 2] None = []"
    by (simp add: tied_crosses_def peg_poll_def check_for_peg_crosses_def graph_of_def)
  have gapped: "check_for_peg_crosses (graph_of gapped_crosses) (Some (gapped_crosses ! 0))
       = ([CROSS_ABOVE, CROSS_BELOW], Some (gapped_crosses ! 1), [LastCross, GetLastCrosses 2])"
    by (simp add: gapped_crosses_def check_for_peg_crosses_def graph_of_def cross_type_of_def
        Let_def)
  have run: "run_polls gapped_crosses [1, 2] None
       = [peg_cross_string CROSS_ABOVE, peg_cross_string CROSS_BELOW]"
    by (simp add: gapped_crosses_def peg_poll_def check_for_peg_crosses_def graph_of_def
        cross_type_of_def Let_def)
  from tied gapped run show ?thesis
    by (simp add: tied_crosses_def gapped_crosses_def)
qed

section \<open>Properties of the monitor thread\<close>









lemma stop_ends_loop:
  "alive st \<Longrightarrow> \<not> thread_active st \<Longrightarrow> \<not> alive (wrapper_iteration body st)"
  by (simp add: wrapper_iteration_def)










end
